theory Spec2Isabelle
  imports Complex_Main "HOL-Library.Word"
begin

section \<open>Bytes and buffers\<close>

text \<open>
  A Node.js \<^verbatim>\<open>Buffer\<close> is a sequence of bytes; indexing yields numbers in 0..255.
\<close>

type_synonym byte = "8 word"
type_synonym buffer = "byte list"

section \<open>server/utils/fileValidation.js\<close>

subsection \<open>detectFileType\<close>

text \<open>
  \<^verbatim>\<open>FILE_SIGNATURES\<close> is an object literal; \<^verbatim>\<open>Object.entries\<close> walks its string keys
  in insertion order, so the table is an association list in the order of the source.
  The entry \<^verbatim>\<open>'text/plain': null\<close> is \<open>None\<close>.
\<close>

definition FILE_SIGNATURES :: "(string \<times> byte list option) list" where
  "FILE_SIGNATURES =
    [(''image/jpeg'', Some [0xFF, 0xD8, 0xFF]),
     (''image/png'', Some [0x89, 0x50, 0x4E, 0x47, 0x0D, 0x0A, 0x1A, 0x0A]),
     (''image/gif'', Some [0x47, 0x49, 0x46, 0x38]),
     (''image/webp'', Some [0x52, 0x49, 0x46, 0x46]),
     (''application/pdf'', Some [0x25, 0x50, 0x44, 0x46]),
     (''application/msword'', Some [0xD0, 0xCF, 0x11, 0xE0]),
     (''application/vnd.openxmlformats-officedocument.wordprocessingml.document'',
        Some [0x50, 0x4B, 0x03, 0x04]),
     (''application/zip'', Some [0x50, 0x4B, 0x03, 0x04]),
     (''application/x-rar-compressed'', Some [0x52, 0x61, 0x72, 0x21]),
     (''application/x-7z-compressed'', Some [0x37, 0x7A, 0xBC, 0xAF, 0x27, 0x1C]),
     (''application/x-msdownload'', Some [0x4D, 0x5A]),
     (''application/x-executable'', Some [0x7F, 0x45, 0x4C, 0x46]),
     (''text/plain'', None)]"

text \<open>The inner loop \<^verbatim>\<open>for (i = 0; i < signature.length; i++)\<close> comparing
  \<^verbatim>\<open>buffer[i]\<close> with \<^verbatim>\<open>signature[i]\<close>; it runs only when the buffer is at least as
  long as the signature.\<close>

fun signature_matches :: "buffer \<Rightarrow> byte list \<Rightarrow> bool" where
  "signature_matches buf [] = True"
| "signature_matches [] (s # sig) = False"
| "signature_matches (b # buf) (s # sig) = (b = s \<and> signature_matches buf sig)"

fun detect_entries :: "(string \<times> byte list option) list \<Rightarrow> buffer \<Rightarrow> string" where
  "detect_entries [] buf = ''application/octet-stream''"
| "detect_entries ((mimeType, None) # rest) buf = detect_entries rest buf"
| "detect_entries ((mimeType, Some signature) # rest) buf =
     (if length signature \<le> length buf \<and> signature_matches buf signature then mimeType
      else detect_entries rest buf)"

definition detectFileType :: "buffer \<Rightarrow> string option" where
  "detectFileType buf =
     (if length buf = 0 then None else Some (detect_entries FILE_SIGNATURES buf))"

subsection \<open>calculateShannonEntropy\<close>

text \<open>
  JavaScript numbers are IEEE doubles. A finite double is modelled as the real number it
  denotes. The rounded operations that \<^verbatim>\<open>calculateShannonEntropy\<close> applies, which are
  the division \<^verbatim>\<open>count / len\<close>, \<^verbatim>\<open>Math.log2\<close>, the multiplication and the
  subtraction, are parameters of the model: the entropy is defined over any arithmetic,
  and the double arithmetic of the engine is one of them.
\<close>

record arithmetic_ops =
  fl_div :: "real \<Rightarrow> real \<Rightarrow> real"
  fl_log2 :: "real \<Rightarrow> real"
  fl_mul :: "real \<Rightarrow> real \<Rightarrow> real"
  fl_sub :: "real \<Rightarrow> real \<Rightarrow> real"

text \<open>
  \<^verbatim>\<open>counts\<close> is a JavaScript \<^verbatim>\<open>Map\<close>, iterated in insertion order: an association
  list. \<^verbatim>\<open>counts.set(byte, (counts.get(byte) || 0) + 1)\<close> is \<open>counts_set\<close>. The body
  of the second loop, \<^verbatim>\<open>entropy -= p * Math.log2(p)\<close>, is \<open>entropy_step\<close>.
\<close>

fun counts_set :: "(byte \<times> nat) list \<Rightarrow> byte \<Rightarrow> (byte \<times> nat) list" where
  "counts_set [] b = [(b, 1)]"
| "counts_set ((k, c) # m) b = (if k = b then (k, c + 1) # m else (k, c) # counts_set m b)"

definition byte_counts :: "buffer \<Rightarrow> (byte \<times> nat) list" where
  "byte_counts buf = foldl counts_set [] buf"

definition entropy_step :: "arithmetic_ops \<Rightarrow> nat \<Rightarrow> real \<Rightarrow> byte \<times> nat \<Rightarrow> real" where
  "entropy_step ops len entropy kc =
     (let p = fl_div ops (real (snd kc)) (real len)
      in fl_sub ops entropy (fl_mul ops p (fl_log2 ops p)))"

definition calculateShannonEntropy :: "arithmetic_ops \<Rightarrow> buffer \<Rightarrow> real" where
  "calculateShannonEntropy ops buf =
     (if length buf = 0 then 0
      else foldl (entropy_step ops (length buf)) 0 (byte_counts buf))"



subsection \<open>Issues\<close>

text \<open>
  The source collects findings as message strings, several of them with formatted
  numbers or library error texts interpolated. Each message template is a constructor
  here, carrying the interpolated values:
  \<^item> \<open>FileIsEmpty\<close>: 'File is empty'
  \<^item> \<open>ContainsNullBytes\<close>: 'Contains null bytes (possible corruption)'
  \<^item> \<open>RepeatedPattern\<close>: 'Suspicious repeated pattern detected ...'
  \<^item> \<open>HighNullConcentration r\<close>: 'High concentration of null bytes (r*100%) ...'
  \<^item> \<open>ExtremelyHighEntropyIssue e\<close>: 'Extremely high entropy (e) ...'
  \<^item> \<open>UnusuallyLowEntropy e t\<close>: 'Unusually low entropy (e) for t'
  \<^item> \<open>HighEntropyVariance v\<close>: 'High entropy variance (v) ...'
  \<^item> \<open>ExtensionMismatch ext t\<close>: 'File extension (.ext) does not match detected type (t)'
  \<^item> \<open>JpegTruncated\<close>: 'JPEG file appears truncated (missing end marker)'
  \<^item> \<open>PngTruncated\<close>: 'PNG file may be truncated or corrupted'
  \<^item> \<open>InvalidDimensions f\<close>: 'f has invalid dimensions'
  \<^item> \<open>ParseError f msg\<close>: 'f parse error: msg'
  \<^item> \<open>PdfNoPages\<close>: 'PDF has no pages or invalid structure'
  \<^item> \<open>ZipEmpty\<close>: 'ZIP file is empty'
  \<^item> \<open>ZipEntryReadError msg\<close>: 'ZIP entry read error: msg'
  \<^item> \<open>Reason s\<close>: one of the fixed reason strings of the criticality classifier
    (their dash is written as a hyphen here).
\<close>

datatype issue =
    FileIsEmpty
  | ContainsNullBytes
  | RepeatedPattern
  | HighNullConcentration real
  | ExtremelyHighEntropyIssue real
  | UnusuallyLowEntropy real string
  | HighEntropyVariance real
  | ExtensionMismatch string string
  | JpegTruncated
  | PngTruncated
  | InvalidDimensions string
  | ParseError string string
  | PdfNoPages
  | ZipEmpty
  | ZipEntryReadError string
  | Reason string

subsection \<open>classifyFileCriticality\<close>

record criticality =
  level :: nat
  c_riskScore :: real
  reasons :: "issue list"
  c_entropy :: real
  c_detectedType :: "string option"

text \<open>The if/else-if chain over the entropy, in the order of the source. The parameters
  \<^verbatim>\<open>filename\<close> and \<^verbatim>\<open>originalMimeType\<close> are accepted and not used by the body, and
  neither \<^verbatim>\<open>extensionRisk\<close> nor \<^verbatim>\<open>hasMalformedHeader\<close> is called. The literal 4.5 is
  a double; the literals 7.2 and 7.9 denote the doubles next above them, so a double is
  below the literal's double exactly when it is below the decimal number.\<close>

definition entropy_band :: "real \<Rightarrow> nat \<times> issue" where
  "entropy_band entropy =
     (if entropy = 0 then (4, Reason ''Empty or fully corrupted file'')
      else if entropy < 4.5 then
        (3, Reason ''Very low entropy - truncated or broken file structure'')
      else if entropy \<ge> 4.5 \<and> entropy < 7.2 then (0, Reason ''Normal entropy - likely safe'')
      else if entropy \<ge> 7.2 \<and> entropy < 7.9 then
        (2, Reason ''High entropy - encrypted/compressed/suspicious'')
      else if entropy \<ge> 7.9 then
        (4, Reason ''Extremely high entropy - malware-like randomness'')
      else (1, Reason ''Unexpected entropy pattern''))"

definition classifyFileCriticality ::
  "arithmetic_ops \<Rightarrow> buffer \<Rightarrow> string \<Rightarrow> string \<Rightarrow> criticality" where
  "classifyFileCriticality ops buf filename originalMimeType =
     (let detectedType = detectFileType buf;
          entropy = calculateShannonEntropy ops buf;
          (lvl, reason) = entropy_band entropy
      in \<lparr> level = lvl, c_riskScore = real lvl, reasons = [reason],
           c_entropy = entropy, c_detectedType = detectedType \<rparr>)"


subsection \<open>String helpers\<close>

text \<open>File names are ASCII strings. \<^verbatim>\<open>toLowerCase\<close>, \<^verbatim>\<open>filename.split('.').pop()\<close>
  and the test of the regular expression \<^verbatim>\<open>/\.(txt|log|json|xml|html|css|js)$/i\<close>.\<close>

definition to_lower_char :: "char \<Rightarrow> char" where
  "to_lower_char c =
     (case map_of (zip ''ABCDEFGHIJKLMNOPQRSTUVWXYZ'' ''abcdefghijklmnopqrstuvwxyz'') c of
        Some l \<Rightarrow> l
      | None \<Rightarrow> c)"

definition toLowerCase :: "string \<Rightarrow> string" where
  "toLowerCase s = map to_lower_char s"

definition split_dot_pop :: "string \<Rightarrow> string" where
  "split_dot_pop filename = rev (takeWhile (\<lambda>c. c \<noteq> CHR ''.'') (rev filename))"

definition text_extension_regex :: "string \<Rightarrow> bool" where
  "text_extension_regex filename =
     (CHR ''.'' \<in> set filename \<and>
      toLowerCase (split_dot_pop filename)
        \<in> set [''txt'', ''log'', ''json'', ''xml'', ''html'', ''css'', ''js''])"

definition startsWith :: "string \<Rightarrow> string \<Rightarrow> bool" where
  "startsWith s pre = (take (length pre) s = pre)"

subsection \<open>checkRepeatedPattern\<close>

text \<open>
  The inner loop
  \<^verbatim>\<open>for (let i = patternLen; i < buffer.length - patternLen; i += patternLen)\<close>
  with its two early \<^verbatim>\<open>return true\<close>. The result is the early return flag together
  with the final values of \<^verbatim>\<open>matches\<close> and \<^verbatim>\<open>totalChecked\<close>. The loop condition is
  written with an addition, since the subtraction of the source is on numbers that may
  be negative. \<^verbatim>\<open>patternLen\<close> ranges over 1..4 in the caller; the guard on 0 is there
  for the termination proof only.
\<close>

function pattern_loop :: "buffer \<Rightarrow> nat \<Rightarrow> nat \<Rightarrow> nat \<Rightarrow> nat \<Rightarrow> bool \<times> nat \<times> nat" where
  "pattern_loop buf patternLen i matches totalChecked =
     (if patternLen = 0 \<or> \<not> i + patternLen < length buf then (False, matches, totalChecked)
      else if take patternLen (drop i buf) = take patternLen buf then
        (if matches + 1 > 3 \<and> real (matches + 1) / real (totalChecked + 1) > 0.5
         then (True, matches + 1, totalChecked + 1)
         else pattern_loop buf patternLen (i + patternLen) (matches + 1) (totalChecked + 1))
      else if matches > 5 then (True, matches, totalChecked + 1)
      else pattern_loop buf patternLen (i + patternLen) 0 (totalChecked + 1))"
  by pat_completeness auto
termination
  by (relation "measure (\<lambda>(buf, patternLen, i, matches, totalChecked). length buf - i)") auto

definition pattern_of_length :: "buffer \<Rightarrow> nat \<Rightarrow> bool" where
  "pattern_of_length buf patternLen =
     (if length buf < patternLen * 3 then False
      else (case pattern_loop buf patternLen patternLen 0 0 of
              (returned, matches, totalChecked) \<Rightarrow>
                 returned \<or> (matches > 10 \<and> totalChecked > 0
                              \<and> real matches / real totalChecked > 0.4)))"

definition checkRepeatedPattern :: "buffer \<Rightarrow> bool" where
  "checkRepeatedPattern buf =
     (if length buf < 8 then False
      else if pattern_of_length buf 1 \<or> pattern_of_length buf 2
              \<or> pattern_of_length buf 3 \<or> pattern_of_length buf 4 then True
      else if length buf > 20
              \<and> real (length (filter (\<lambda>byte. byte = hd buf) buf)) / real (length buf) > 0.7
           then True
      else False)"

subsection \<open>External collaborators\<close>

text \<open>
  \<^verbatim>\<open>getEntropyFeatures\<close> (server/utils/entropy.js), \<^verbatim>\<open>callIDS\<close> (server/utils/ids.js)
  and the libraries \<^verbatim>\<open>sharp\<close>, \<^verbatim>\<open>pdf-parse\<close> and \<^verbatim>\<open>adm-zip\<close> are outside the
  files at hand. They are parameters of the model, collected in an environment together
  with the double arithmetic. A call that throws returns \<open>Inl\<close> with the error message.
\<close>

record entropy_features =
  ef_entropy :: real
  entropy_variance :: real
  entropy_ratio :: real

record file_features =
  file_size :: nat
  file_entropy :: real
  file_type_risk :: real
  encryption_strength :: nat
  upload_duration :: real
  compression_ratio :: real
  metadata_anomaly :: real
  transfer_speed :: real
  packet_loss :: real
  concurrent_uploads :: nat

record ids_result =
  anomaly_score :: real
  verdict :: string
  error :: "string option"

record env =
  arithmetic :: arithmetic_ops
  getEntropyFeatures :: "buffer \<Rightarrow> entropy_features"
  sharp_metadata :: "buffer \<Rightarrow> string + nat \<times> nat"
  pdfParse :: "buffer \<Rightarrow> string + nat"
  AdmZip :: "buffer \<Rightarrow> string + nat \<times> string option"
  callIDS :: "file_features \<Rightarrow> string + ids_result"

text \<open>
  \<open>sharp_metadata\<close> yields width and height (0 when absent); \<open>pdfParse\<close> the number of
  pages; \<open>AdmZip\<close> the number of entries and the error of reading the first entry, if any.
\<close>

subsection \<open>detectCorruption\<close>

record corruption_check =
  cc_isCorrupted :: bool
  cc_issues :: "issue list"
  cc_entropy :: real
  cc_detectedType :: "string option"

definition null_byte_issues :: "buffer \<Rightarrow> string \<Rightarrow> issue list" where
  "null_byte_issues buf filename =
     (if filename \<noteq> [] \<and> text_extension_regex filename
         \<and> (0::byte) \<in> set buf \<and> length buf < 10000
      then [ContainsNullBytes] else [])"

definition repeated_pattern_issues :: "buffer \<Rightarrow> issue list" where
  "repeated_pattern_issues buf =
     (if length buf > 20 \<and> checkRepeatedPattern (take (min 1000 (length buf)) buf)
      then [RepeatedPattern] else [])"

definition null_ratio_issues :: "buffer \<Rightarrow> issue list" where
  "null_ratio_issues buf =
     (if length buf > 50
      then (let nullByteRatio = real (length (filter (\<lambda>byte. byte = 0) buf)) / real (length buf)
            in if nullByteRatio > 0.2 then [HighNullConcentration nullByteRatio] else [])
      else [])"

definition entropy_issues :: "entropy_features \<Rightarrow> buffer \<Rightarrow> issue list" where
  "entropy_issues ef buf =
     (if ef_entropy ef > 7.8 \<and> length buf > 512
      then [ExtremelyHighEntropyIssue (ef_entropy ef)] else [])
     @ (if ef_entropy ef < 2.5 \<and> length buf > 500
        then (case detectFileType buf of
                None \<Rightarrow> []
              | Some detectedType \<Rightarrow>
                  if \<not> startsWith detectedType ''text/''
                     \<and> detectedType \<noteq> ''application/octet-stream''
                  then [UnusuallyLowEntropy (ef_entropy ef) detectedType] else [])
        else [])
     @ (if entropy_variance ef > 2.0 \<and> length buf > 1000
        then [HighEntropyVariance (entropy_variance ef)] else [])"

definition detectCorruption :: "env \<Rightarrow> buffer \<Rightarrow> string \<Rightarrow> corruption_check" where
  "detectCorruption e buf filename =
     (let entropyFeatures = getEntropyFeatures e buf;
          issues = null_byte_issues buf filename @ repeated_pattern_issues buf
                   @ null_ratio_issues buf @ entropy_issues entropyFeatures buf
      in \<lparr> cc_isCorrupted = (length issues > 0), cc_issues = issues,
           cc_entropy = ef_entropy entropyFeatures, cc_detectedType = detectFileType buf \<rparr>)"

subsection \<open>validateImage, validatePDF, validateZIP\<close>

definition sharp_issues :: "env \<Rightarrow> buffer \<Rightarrow> string \<Rightarrow> issue list" where
  "sharp_issues e buf format =
     (case sharp_metadata e buf of
        Inl message \<Rightarrow> [ParseError format message]
      | Inr (width, height) \<Rightarrow>
          if width = 0 \<or> height = 0 then [InvalidDimensions format] else [])"

definition validateImage :: "env \<Rightarrow> buffer \<Rightarrow> string \<Rightarrow> issue list" where
  "validateImage e buf detectedType =
     (if detectedType = ''image/jpeg'' \<or> detectedType = ''image/jpg''
      then (if length buf > 10
               \<and> (let lastBytes = drop (length buf - 2) buf
                   in lastBytes ! 0 \<noteq> 0xFF \<or> lastBytes ! 1 \<noteq> 0xD9)
            then [JpegTruncated] else [])
           @ sharp_issues e buf ''JPEG''
      else [])
     @ (if detectedType = ''image/png''
        then (if length buf > 8
                 \<and> drop (length buf - 8) buf \<noteq> [0x49, 0x45, 0x4E, 0x44, 0xAE, 0x42, 0x60, 0x82]
                 \<and> take 8 buf = [0x89, 0x50, 0x4E, 0x47, 0x0D, 0x0A, 0x1A, 0x0A]
              then [PngTruncated] else [])
             @ sharp_issues e buf ''PNG''
        else [])
     @ (if detectedType = ''image/gif'' then sharp_issues e buf ''GIF'' else [])"

definition validatePDF :: "env \<Rightarrow> buffer \<Rightarrow> issue list" where
  "validatePDF e buf =
     (case pdfParse e buf of
        Inl message \<Rightarrow> [ParseError ''PDF'' message]
      | Inr numpages \<Rightarrow> if numpages = 0 then [PdfNoPages] else [])"

definition validateZIP :: "env \<Rightarrow> buffer \<Rightarrow> issue list" where
  "validateZIP e buf =
     (case AdmZip e buf of
        Inl message \<Rightarrow> [ParseError ''ZIP'' message]
      | Inr (entries, firstEntryError) \<Rightarrow>
          (if entries = 0 then [ZipEmpty] else [])
          @ (if entries > 0
             then (case firstEntryError of None \<Rightarrow> [] | Some message \<Rightarrow> [ZipEntryReadError message])
             else []))"

subsection \<open>checkFileStructure\<close>

text \<open>
  \<^verbatim>\<open>typeMismatches[extension]\<close> reads a property of an object literal. Besides the
  eight own keys, the lower-case names \<^verbatim>\<open>constructor\<close> and \<^verbatim>\<open>__proto__\<close> resolve
  through the prototype to a truthy value that equals no detected type.
\<close>

datatype expected_type = ExpectedType string | Inherited | NoEntry

definition typeMismatches :: "string \<Rightarrow> expected_type" where
  "typeMismatches extension =
     (case map_of
        [(''jpg'', ''image/jpeg''), (''jpeg'', ''image/jpeg''), (''png'', ''image/png''),
         (''gif'', ''image/gif''), (''pdf'', ''application/pdf''), (''zip'', ''application/zip''),
         (''exe'', ''application/x-msdownload''), (''dll'', ''application/x-msdownload'')]
        extension of
        Some t \<Rightarrow> ExpectedType t
      | None \<Rightarrow> if extension = ''constructor'' \<or> extension = ''__proto__'' then Inherited
                else NoEntry)"

definition extension_issues :: "string option \<Rightarrow> string \<Rightarrow> issue list" where
  "extension_issues detected filename =
     (let extension = toLowerCase (split_dot_pop filename)
      in case detected of
           None \<Rightarrow> []
         | Some detectedType \<Rightarrow>
             if extension \<noteq> []
                \<and> (case typeMismatches extension of
                      ExpectedType expectedType \<Rightarrow> detectedType \<noteq> expectedType
                    | Inherited \<Rightarrow> True
                    | NoEntry \<Rightarrow> False)
                \<and> detectedType \<noteq> ''application/octet-stream''
             then [ExtensionMismatch extension detectedType] else [])"

definition checkFileStructure :: "env \<Rightarrow> buffer \<Rightarrow> string \<Rightarrow> issue list" where
  "checkFileStructure e buf filename =
     (if filename = [] then []
      else let detected = detectFileType buf
           in extension_issues detected filename
              @ (case detected of
                   None \<Rightarrow> []
                 | Some detectedType \<Rightarrow>
                     (if startsWith detectedType ''image/''
                      then validateImage e buf detectedType else [])
                     @ (if detectedType = ''application/pdf'' then validatePDF e buf else [])
                     @ (if detectedType = ''application/zip'' then validateZIP e buf else [])))"

subsection \<open>validateFile\<close>

record validation =
  isValid :: bool
  isCorrupted :: bool
  isSuspicious :: bool
  riskScore :: real
  issues :: "issue list"
  detectedType :: "string option"
  entropy :: real
  recommendations :: "string list"
  criticalityLevel :: "nat option"

text \<open>The object is created without a \<^verbatim>\<open>criticalityLevel\<close> property; the field is
  \<open>None\<close> until it is assigned.\<close>

definition initial_validation :: validation where
  "initial_validation =
     \<lparr> isValid = True, isCorrupted = False, isSuspicious = False, riskScore = 0,
       issues = [], detectedType = None, entropy = 0, recommendations = [],
       criticalityLevel = None \<rparr>"

definition validateFile :: "env \<Rightarrow> buffer \<Rightarrow> string \<Rightarrow> string \<Rightarrow> validation" where
  "validateFile e buf filename originalMimeType =
     (if length buf = 0
      then initial_validation \<lparr> isValid := False, issues := [FileIsEmpty] \<rparr>
      else
        let corruptionCheck = detectCorruption e buf filename;
            structureIssues = checkFileStructure e buf filename;
            criticality = classifyFileCriticality (arithmetic e) buf filename originalMimeType;
            v = initial_validation
                  \<lparr> isCorrupted := (cc_isCorrupted corruptionCheck \<or> length structureIssues > 0),
                    riskScore := c_riskScore criticality,
                    issues := cc_issues corruptionCheck @ structureIssues @ reasons criticality,
                    detectedType := detectFileType buf,
                    entropy := c_entropy criticality,
                    criticalityLevel := Some (level criticality) \<rparr>
        in if level criticality \<ge> 2
           then v \<lparr> isCorrupted := True, isSuspicious := True, isValid := False,
                    recommendations :=
                      [''File should be rejected due to high criticality level''] \<rparr>
           else if level criticality = 1
           then v \<lparr> isSuspicious := True,
                    recommendations :=
                      [''File has minor anomalies - treat with caution''] \<rparr>
           else v)"


section \<open>server/routes/api.js: uploadHandler\<close>

subsection \<open>Requests, records and responses\<close>

text \<open>
  \<^verbatim>\<open>req.file\<close> as multer provides it; an absent \<^verbatim>\<open>req.file\<close> or \<^verbatim>\<open>buffer\<close> is
  \<open>None\<close>. \<^verbatim>\<open>req.ip\<close> and \<^verbatim>\<open>req.connection.remoteAddress\<close> are strings, empty when
  undefined.
\<close>

record upload_file =
  f_buffer :: "buffer option"
  f_size :: nat
  originalname :: string
  mimetype :: string

record request =
  req_file :: "upload_file option"
  user_id :: string
  ip :: string
  remoteAddress :: string

text \<open>The two shapes of the \<^verbatim>\<open>details\<close> object of an alert: the one written when the
  criticality level blocks the file, and the one written after the IDS analysis.\<close>

datatype alert_details =
    ValidationDetails
      (d_filename: string) (d_file_size: nat) (d_issues: "issue list")
      (d_detected_type: "string option") (d_entropy: real) (d_risk_score: real)
      (d_blocked: bool) (d_reason: string) (d_validation_result: "bool \<times> bool \<times> bool")
  | IdsDetails
      (d_ids: ids_result) (d_isCorrupted: bool) (d_isSuspicious: bool) (d_riskScore: real)
      (d_issues: "issue list") (d_detected_type: "string option")
      (d_filename: string) (d_file_size: nat) (d_blocked: bool) (d_reason: string)

fun details_entropy :: "alert_details \<Rightarrow> real option" where
  "details_entropy (ValidationDetails fn sz iss dt ent rs bl re vr) = Some ent"
| "details_entropy (IdsDetails r c s rs iss dt fn sz bl re) = None"

fun details_ids :: "alert_details \<Rightarrow> ids_result option" where
  "details_ids (ValidationDetails fn sz iss dt ent rs bl re vr) = None"
| "details_ids (IdsDetails r c s rs iss dt fn sz bl re) = Some r"

record alert =
  a_userId :: string
  severity :: string
  threat_type :: string
  confidence :: real
  source_ip :: string
  ml_score :: real
  details :: alert_details

record transfer =
  t_userId :: string
  t_filename :: string
  t_size :: nat
  t_status :: string
  progress :: nat
  encryption_method :: string
  t_entropy_features :: entropy_features
  t_ids_result :: ids_result

text \<open>
  The persistent state the handler touches: the \<^verbatim>\<open>Alert\<close> and \<^verbatim>\<open>Transfer\<close>
  collections, each \<^verbatim>\<open>create\<close> appending one document, and the log of the requests
  sent to the IDS service. Writes to the collections are taken to succeed and the
  collaborators of the environment to return, so the outer \<^verbatim>\<open>catch\<close> of the handler
  (status 500) is never entered; the WebSocket broadcast of an alert, which stores
  nothing, is left out.
\<close>

record world =
  alerts :: "alert list"
  transfers :: "transfer list"
  ids_requests :: "file_features list"

datatype blocked_details =
    BlockedByValidation "issue list" real "string option" real
  | BlockedByIds ids_result "issue list" real "string option"

text \<open>Responses by HTTP status. The message of a 403 either lists the issues
  (\<open>Some issues\<close>) or is the fixed text about the intrusion detection system (\<open>None\<close>).\<close>

datatype response =
    Response400 string
  | Response403 string blocked_details "issue list option"
  | Response200 transfer
  | Response500 string

datatype outcome = ACCEPT | REJECT

fun outcome_of :: "response \<Rightarrow> outcome option" where
  "outcome_of (Response403 status det message) = Some REJECT"
| "outcome_of (Response200 doc) = Some ACCEPT"
| "outcome_of (Response400 err) = None"
| "outcome_of (Response500 err) = None"

subsection \<open>The handler\<close>

definition maxSize :: nat where
  "maxSize = 100 * 1024 * 1024"

definition first_source_ip :: "request \<Rightarrow> string" where
  "first_source_ip req =
     (if ip req \<noteq> [] then ip req
      else if remoteAddress req \<noteq> [] then remoteAddress req else ''unknown'')"

text \<open>Lines 126 to 199: the alert and the response when the criticality level blocks.\<close>

definition reject_by_level :: "request \<Rightarrow> upload_file \<Rightarrow> validation \<Rightarrow> world \<Rightarrow> response \<times> world" where
  "reject_by_level req f fileValidation w =
     (let a = \<lparr> a_userId = user_id req,
                severity = (if riskScore fileValidation > 0.7 then ''critical'' else ''high''),
                threat_type =
                  (if isCorrupted fileValidation then ''CorruptedFile'' else ''SuspiciousFile''),
                confidence = min (riskScore fileValidation) 1.0,
                source_ip = first_source_ip req,
                ml_score = min (riskScore fileValidation) 1.0,
                details = ValidationDetails (originalname f) (f_size f) (issues fileValidation)
                  (detectedType fileValidation) (entropy fileValidation)
                  (riskScore fileValidation) True
                  (if isCorrupted fileValidation then ''File appears corrupted''
                   else ''File has suspicious characteristics'')
                  (isCorrupted fileValidation, isSuspicious fileValidation,
                   isValid fileValidation) \<rparr>
      in (Response403 ''corrupted''
            (BlockedByValidation (issues fileValidation) (riskScore fileValidation)
               (detectedType fileValidation) (entropy fileValidation))
            (Some (issues fileValidation)),
          w \<lparr> alerts := alerts w @ [a] \<rparr>))"

text \<open>Lines 201 to 219: the feature record sent to the IDS service.\<close>

definition fileFeatures :: "upload_file \<Rightarrow> entropy_features \<Rightarrow> validation \<Rightarrow> file_features" where
  "fileFeatures f entropyFeatures fileValidation =
     \<lparr> file_size = f_size f,
       file_entropy = ef_entropy entropyFeatures,
       file_type_risk =
         (if riskScore fileValidation > 0.3 then 0.8
          else if isSuspicious fileValidation then 0.6 else 0.2),
       encryption_strength = 256,
       upload_duration = 1.0,
       compression_ratio = entropy_ratio entropyFeatures,
       metadata_anomaly = entropy_variance entropyFeatures + riskScore fileValidation * 10,
       transfer_speed = real (f_size f) / 1000,
       packet_loss = 0.0,
       concurrent_uploads = 1 \<rparr>"

text \<open>Lines 221 to 245: the call of the IDS service inside \<^verbatim>\<open>try\<close>/\<^verbatim>\<open>catch\<close>.\<close>

definition ids_analysis :: "env \<Rightarrow> file_features \<Rightarrow> validation \<Rightarrow> ids_result" where
  "ids_analysis e features fileValidation =
     (case callIDS e features of
        Inr idsResult \<Rightarrow>
          if riskScore fileValidation > 0.3
          then (let score = max (anomaly_score idsResult) (riskScore fileValidation)
                in idsResult \<lparr> anomaly_score := score,
                     verdict := (if score > 0.5 then ''suspicious'' else verdict idsResult) \<rparr>)
          else idsResult
      | Inl message \<Rightarrow>
          if riskScore fileValidation > 0.3
          then \<lparr> anomaly_score = riskScore fileValidation, verdict = ''suspicious'',
                 error = Some ''IDS service unavailable but file validation detected issues'' \<rparr>
          else \<lparr> anomaly_score = 0.8, verdict = ''suspicious'',
                 error = Some ''IDS service unavailable'' \<rparr>)"

text \<open>Line 248: the condition under which nothing is stored.\<close>

definition blocks :: "ids_result \<Rightarrow> validation \<Rightarrow> bool" where
  "blocks idsResult fileValidation =
     (verdict idsResult = ''suspicious'' \<or> isCorrupted fileValidation
      \<or> riskScore fileValidation > 0.5)"

text \<open>Lines 250 to 289. \<^verbatim>\<open>idsResult.anomaly_score || 0\<close> is the score itself on numbers.\<close>

definition reject_after_ids ::
  "request \<Rightarrow> upload_file \<Rightarrow> validation \<Rightarrow> ids_result \<Rightarrow> world \<Rightarrow> response \<times> world" where
  "reject_after_ids req f fileValidation idsResult w =
     (let a = \<lparr> a_userId = user_id req,
                severity = ''high'',
                threat_type =
                  (if isCorrupted fileValidation then ''CorruptedFile'' else ''SuspiciousFile''),
                confidence = max (anomaly_score idsResult) (riskScore fileValidation),
                source_ip = ip req,
                ml_score = max (anomaly_score idsResult) (riskScore fileValidation),
                details = IdsDetails idsResult (isCorrupted fileValidation)
                  (isSuspicious fileValidation) (riskScore fileValidation)
                  (issues fileValidation) (detectedType fileValidation)
                  (originalname f) (f_size f) True
                  (if isCorrupted fileValidation then ''File appears corrupted''
                   else ''File flagged as suspicious by IDS and validation'') \<rparr>
      in (Response403 (if isCorrupted fileValidation then ''corrupted'' else ''suspicious'')
            (BlockedByIds idsResult (issues fileValidation) (riskScore fileValidation)
               (detectedType fileValidation))
            (if isCorrupted fileValidation then Some (issues fileValidation) else None),
          w \<lparr> alerts := alerts w @ [a] \<rparr>))"

text \<open>Lines 292 to 314.\<close>

definition store_transfer ::
  "request \<Rightarrow> upload_file \<Rightarrow> entropy_features \<Rightarrow> ids_result \<Rightarrow> world \<Rightarrow> response \<times> world" where
  "store_transfer req f entropyFeatures idsResult w =
     (let doc = \<lparr> t_userId = user_id req, t_filename = originalname f, t_size = f_size f,
                  t_status = ''completed'', progress = 100, encryption_method = ''AES-GCM'',
                  t_entropy_features = entropyFeatures, t_ids_result = idsResult \<rparr>
      in (Response200 doc, w \<lparr> transfers := transfers w @ [doc] \<rparr>))"

definition analyse_and_decide ::
  "env \<Rightarrow> request \<Rightarrow> upload_file \<Rightarrow> buffer \<Rightarrow> validation \<Rightarrow> world \<Rightarrow> response \<times> world" where
  "analyse_and_decide e req f buf fileValidation w =
     (let entropyFeatures = getEntropyFeatures e buf;
          features = fileFeatures f entropyFeatures fileValidation;
          idsResult = ids_analysis e features fileValidation;
          w' = w \<lparr> ids_requests := ids_requests w @ [features] \<rparr>
      in if blocks idsResult fileValidation
         then reject_after_ids req f fileValidation idsResult w'
         else store_transfer req f entropyFeatures idsResult w')"

definition uploadHandler :: "env \<Rightarrow> request \<Rightarrow> world \<Rightarrow> response \<times> world" where
  "uploadHandler e req w =
     (case req_file req of
        None \<Rightarrow> (Response400 ''No file provided'', w)
      | Some f \<Rightarrow>
          (case f_buffer f of
             None \<Rightarrow> (Response400 ''File is empty or invalid'', w)
           | Some buf \<Rightarrow>
               if length buf = 0 then (Response400 ''File is empty or invalid'', w)
               else if f_size f > maxSize
               then (Response400 ''File size exceeds 100MB limit'', w)
               else
                 let fileValidation = validateFile e buf (originalname f) (mimetype f);
                     lvl = (case criticalityLevel fileValidation of None \<Rightarrow> 0 | Some l \<Rightarrow> l)
                 in if lvl \<ge> 2 then reject_by_level req f fileValidation w
                    else analyse_and_decide e req f buf fileValidation w))"


section \<open>Handshake validation\<close>

text \<open>
  The route \<^verbatim>\<open>/handshake/validate\<close> of server/routes/api.js delegates to
  \<^verbatim>\<open>validateHandshake\<close> of server/Handshakes/validateHandshake.js, which is not among
  the files at hand, and neither is the \<^verbatim>\<open>Handshake\<close> model.
\<close>

type_synonym key = "byte list"

datatype hs_state = INIT | PENDING | VALIDATED | FAILED | EXPIRED

datatype hs_error = InvalidKeyMaterial | SessionNotFound | SessionExpired | InvalidSessionState

record HandshakeSession =
  clientPublicKey :: key
  serverPublicKey :: key
  serverPrivateKey :: key
  state :: hs_state
  createdAt :: nat
  expiresAt :: nat
  derivedSessionKey :: "key option"

text \<open>The keyed session store and the audit sink of connection events.\<close>

record hs_world =
  sessions :: "nat \<rightharpoonup> HandshakeSession"
  connection_events :: "string list"

text \<open>Key agreement, key derivation, the oracle call on the handshake features, the
  local risk proxy and the two constants of the fusion policy are parameters.\<close>

record hs_params =
  agree :: "key \<Rightarrow> key \<Rightarrow> key"
  kdf :: "key \<Rightarrow> key"
  hs_oracle :: "HandshakeSession \<Rightarrow> nat \<Rightarrow> string + ids_result"
  hs_localProxy :: "HandshakeSession \<Rightarrow> real"
  conservativeFloor :: real
  acceptanceThreshold :: real

datatype hs_result = SessionKey key "ids_result option" | SuspiciousResult

text \<open>Modelled from the spec: the fusion decision for a handshake (section 4.3), whose
  code in validateHandshake.js is missing. The combined score is the maximum of the local
  proxy and the oracle score, or of the local proxy and the conservative floor when the
  oracle call failed; the outcome is REJECT iff the combined score crosses the acceptance
  threshold or the oracle's verdict label is "suspicious".\<close>

definition hs_fusion :: "hs_params \<Rightarrow> HandshakeSession \<Rightarrow> string + ids_result \<Rightarrow> outcome" where
  "hs_fusion p s oracle =
     (let combinedScore =
            (case oracle of
               Inr r \<Rightarrow> max (hs_localProxy p s) (anomaly_score r)
             | Inl message \<Rightarrow> max (hs_localProxy p s) (conservativeFloor p))
      in if combinedScore > acceptanceThreshold p
            \<or> (case oracle of Inr r \<Rightarrow> verdict r = ''suspicious'' | Inl message \<Rightarrow> False)
         then REJECT else ACCEPT)"

text \<open>Modelled from the spec: \<^verbatim>\<open>validate(handshakeId)\<close> of the handshake state machine
  (section 4.1), whose code in validateHandshake.js is missing. An unknown id fails with
  SessionNotFound; an EXPIRED session, or a PENDING one past its expiry (which moves to
  EXPIRED with its key material erased), fails with SessionExpired; any other state than
  PENDING fails with InvalidSessionState. Otherwise the shared secret is computed, the
  session key derived, the oracle consulted and the fusion decision taken: REJECT moves
  the session to FAILED, erases the key and returns the suspicious result; ACCEPT moves it
  to VALIDATED and returns the key with the oracle's verdict. Every attempt adds one
  connection event.\<close>

definition handshakeValidate ::
  "hs_params \<Rightarrow> nat \<Rightarrow> nat \<Rightarrow> hs_world \<Rightarrow> (hs_error + hs_result) \<times> hs_world" where
  "handshakeValidate p now handshakeId w =
     (case sessions w handshakeId of
        None \<Rightarrow>
          (Inl SessionNotFound, w \<lparr> connection_events := connection_events w @ [''failed''] \<rparr>)
      | Some s \<Rightarrow>
          if state s = EXPIRED then
            (Inl SessionExpired, w \<lparr> connection_events := connection_events w @ [''failed''] \<rparr>)
          else if state s \<noteq> PENDING then
            (Inl InvalidSessionState,
             w \<lparr> connection_events := connection_events w @ [''failed''] \<rparr>)
          else if expiresAt s \<le> now then
            (Inl SessionExpired,
             w \<lparr> sessions := (sessions w)(handshakeId \<mapsto>
                     s \<lparr> state := EXPIRED, derivedSessionKey := None \<rparr>),
                 connection_events := connection_events w @ [''failed''] \<rparr>)
          else
            let sharedSecret = agree p (serverPrivateKey s) (clientPublicKey s);
                sessionKey = kdf p sharedSecret;
                oracle = hs_oracle p s now
            in (case hs_fusion p s oracle of
                  REJECT \<Rightarrow>
                    (Inr SuspiciousResult,
                     w \<lparr> sessions := (sessions w)(handshakeId \<mapsto>
                             s \<lparr> state := FAILED, derivedSessionKey := None \<rparr>),
                         connection_events := connection_events w @ [''suspicious''] \<rparr>)
                | ACCEPT \<Rightarrow>
                    (Inr (SessionKey sessionKey
                            (case oracle of Inr r \<Rightarrow> Some r | Inl message \<Rightarrow> None)),
                     w \<lparr> sessions := (sessions w)(handshakeId \<mapsto>
                             s \<lparr> state := VALIDATED, derivedSessionKey := Some sessionKey \<rparr>),
                         connection_events := connection_events w @ [''success''] \<rparr>)))"

text \<open>A run of validate calls on one session, each at its own time; the results in
  call order.\<close>

fun validate_run ::
  "hs_params \<Rightarrow> nat \<Rightarrow> nat list \<Rightarrow> hs_world \<Rightarrow> (hs_error + hs_result) list \<times> hs_world" where
  "validate_run p handshakeId [] w = ([], w)"
| "validate_run p handshakeId (now # later) w =
     (case handshakeValidate p now handshakeId w of
        (r, w') \<Rightarrow> (case validate_run p handshakeId later w' of
                      (rs, w'') \<Rightarrow> (r # rs, w'')))"

fun releases_key :: "hs_error + hs_result \<Rightarrow> bool" where
  "releases_key (Inr (SessionKey k r)) = True"
| "releases_key (Inr SuspiciousResult) = False"
| "releases_key (Inl err) = False"

text \<open>A session id is settled in a store when no PENDING session is kept under it.\<close>

definition settled :: "nat \<Rightarrow> hs_world \<Rightarrow> bool" where
  "settled hid w = (case sessions w hid of None \<Rightarrow> True | Some s \<Rightarrow> state s \<noteq> PENDING)"

section \<open>Example inputs\<close>

text \<open>The arithmetic without rounding.\<close>

definition exact_arithmetic :: arithmetic_ops where
  "exact_arithmetic =
     \<lparr> fl_div = (\<lambda>a b. a / b), fl_log2 = (\<lambda>x. log 2 x),
       fl_mul = (\<lambda>a b. a * b), fl_sub = (\<lambda>a b. a - b) \<rparr>"

text \<open>An environment in which the IDS service is reachable and answers with score 0.1
  and verdict "normal", and the parsers reject what they are given.\<close>

definition env_normal :: env where
  "env_normal =
     \<lparr> arithmetic = exact_arithmetic,
       getEntropyFeatures =
         (\<lambda>buf. \<lparr> ef_entropy = 5, entropy_variance = 0, entropy_ratio = 5 / 8 \<rparr>),
       sharp_metadata = (\<lambda>buf. Inl ''Input buffer contains unsupported image format''),
       pdfParse = (\<lambda>buf. Inl ''Invalid PDF structure''),
       AdmZip = (\<lambda>buf. Inl ''Invalid or unsupported zip format''),
       callIDS =
         (\<lambda>features. Inr \<lparr> anomaly_score = 0.1, verdict = ''normal'', error = None \<rparr>) \<rparr>"

text \<open>The same with an IDS service that answers score 1 and verdict "normal", and
  with one that cannot be reached.\<close>

definition env_high_score :: env where
  "env_high_score =
     env_normal \<lparr> callIDS :=
       (\<lambda>features. Inr \<lparr> anomaly_score = 1, verdict = ''normal'', error = None \<rparr>) \<rparr>"

definition env_ids_down :: env where
  "env_ids_down = env_normal \<lparr> callIDS := (\<lambda>features. Inl ''connect ECONNREFUSED'') \<rparr>"

text \<open>An IDS service that answers the score 0.8 with the verdict "normal".\<close>

definition env_score_08 :: env where
  "env_score_08 =
     env_normal \<lparr> callIDS :=
       (\<lambda>features. Inr \<lparr> anomaly_score = 0.8, verdict = ''normal'', error = None \<rparr>) \<rparr>"

text \<open>The 38 bytes of the text of the repository's own upload test,
  \<^verbatim>\<open>This is a valid text file for testing.\<close>, followed by a line feed: 39 bytes.\<close>

definition valid_text :: buffer where
  "valid_text =
     [0x54, 0x68, 0x69, 0x73, 0x20, 0x69, 0x73, 0x20, 0x61, 0x20, 0x76, 0x61, 0x6C,
      0x69, 0x64, 0x20, 0x74, 0x65, 0x78, 0x74, 0x20, 0x66, 0x69, 0x6C, 0x65, 0x20,
      0x66, 0x6F, 0x72, 0x20, 0x74, 0x65, 0x73, 0x74, 0x69, 0x6E, 0x67, 0x2E, 0x0A]"

text \<open>The 38 bytes of that test text themselves.\<close>

definition test_text :: buffer where
  "test_text =
     [0x54, 0x68, 0x69, 0x73, 0x20, 0x69, 0x73, 0x20, 0x61, 0x20, 0x76, 0x61, 0x6C,
      0x69, 0x64, 0x20, 0x74, 0x65, 0x78, 0x74, 0x20, 0x66, 0x69, 0x6C, 0x65, 0x20,
      0x66, 0x6F, 0x72, 0x20, 0x74, 0x65, 0x73, 0x74, 0x69, 0x6E, 0x67, 0x2E]"

text \<open>32 bytes that start with the JPEG signature FF D8 FF and do not end with FF D9;
  FF occurs twice and 30 other values once.\<close>

definition truncated_jpeg :: buffer where
  "truncated_jpeg =
     [0xFF, 0xD8, 0xFF, 0xE0, 1, 2, 3, 4, 5, 6, 7, 8, 9, 10, 11, 12, 13, 14, 15, 16,
      17, 18, 19, 20, 21, 22, 23, 24, 25, 26, 27, 28]"

text \<open>32 pairwise different printable characters, from the space to the question mark.\<close>

definition plain_chars :: buffer where
  "plain_chars =
     [0x20, 0x21, 0x22, 0x23, 0x24, 0x25, 0x26, 0x27, 0x28, 0x29, 0x2A, 0x2B, 0x2C,
      0x2D, 0x2E, 0x2F, 0x30, 0x31, 0x32, 0x33, 0x34, 0x35, 0x36, 0x37, 0x38, 0x39,
      0x3A, 0x3B, 0x3C, 0x3D, 0x3E, 0x3F]"


text \<open>The upload of a buffer under a file name and a claimed MIME type, as multer
  hands it to the handler: \<^verbatim>\<open>size\<close> is the length of the buffer.\<close>

definition file_of :: "buffer \<Rightarrow> string \<Rightarrow> string \<Rightarrow> upload_file" where
  "file_of buf name mime =
     \<lparr> f_buffer = Some buf, f_size = length buf, originalname = name, mimetype = mime \<rparr>"

definition upload_of :: "buffer \<Rightarrow> string \<Rightarrow> string \<Rightarrow> request" where
  "upload_of buf name mime =
     \<lparr> req_file = Some (file_of buf name mime),
       user_id = ''u1'', ip = ''127.0.0.1'', remoteAddress = ''127.0.0.1'' \<rparr>"

definition empty_world :: world where
  "empty_world = \<lparr> alerts = [], transfers = [], ids_requests = [] \<rparr>"

text \<open>A handshake store with one PENDING session, and parameters under which the
  oracle answers "normal" with score 0.1.\<close>

definition pending_session :: HandshakeSession where
  "pending_session =
     \<lparr> clientPublicKey = [1, 2, 3], serverPublicKey = [4, 5, 6], serverPrivateKey = [7, 8, 9],
       state = PENDING, createdAt = 0, expiresAt = 300, derivedSessionKey = None \<rparr>"

definition hs_world0 :: hs_world where
  "hs_world0 = \<lparr> sessions = Map.empty(7 \<mapsto> pending_session), connection_events = [] \<rparr>"

definition hs_params0 :: hs_params where
  "hs_params0 =
     \<lparr> agree = (\<lambda>priv pub. priv @ pub), kdf = rev,
       hs_oracle =
         (\<lambda>s now. Inr \<lparr> anomaly_score = 0.1, verdict = ''normal'', error = None \<rparr>),
       hs_localProxy = (\<lambda>s. 0), conservativeFloor = 0.8, acceptanceThreshold = 0.5 \<rparr>"

section \<open>Properties of the entropy classifier\<close>

subsection \<open>The byte counts\<close>

lemma counts_set_sum: "sum_list (map snd (counts_set m b)) = Suc (sum_list (map snd m))"
  by (induction m b rule: counts_set.induct) auto

lemma counts_set_pos: "\<forall>kc\<in>set m. 1 \<le> snd kc \<Longrightarrow> \<forall>kc\<in>set (counts_set m b). 1 \<le> snd kc"
  by (induction m b rule: counts_set.induct) auto

lemma foldl_counts_sum:
  "sum_list (map snd (foldl counts_set m buf)) = sum_list (map snd m) + length buf"
  by (induction buf arbitrary: m) (auto simp: counts_set_sum)

lemma foldl_counts_pos:
  "\<forall>kc\<in>set m. 1 \<le> snd kc \<Longrightarrow> \<forall>kc\<in>set (foldl counts_set m buf). 1 \<le> snd kc"
proof (induction buf arbitrary: m)
  case Nil then show ?case by simp
next
  case (Cons b buf)
  have "\<forall>kc\<in>set (counts_set m b). 1 \<le> snd kc" using Cons.prems by (rule counts_set_pos)
  then show ?case using Cons.IH by simp
qed

lemma byte_counts_bounds:
  assumes "kc \<in> set (byte_counts buf)"
  shows "1 \<le> snd kc \<and> snd kc \<le> length buf"
proof -
  have pos: "1 \<le> snd kc"
    using foldl_counts_pos[of "[]" buf] assms by (simp add: byte_counts_def)
  have "sum_list (map snd (byte_counts buf)) = length buf"
    by (simp add: byte_counts_def foldl_counts_sum)
  moreover have "snd kc \<le> sum_list (map snd (byte_counts buf))"
    using assms by (simp add: member_le_sum_list)
  ultimately show ?thesis using pos by simp
qed



subsection \<open>Sign of the entropy\<close>





text \<open>The arithmetic without rounding has both properties, and its entropy is positive
  as soon as two different bytes occur.\<close>

lemma entropy_step_exact:
  "entropy_step exact_arithmetic len acc kc
     = acc - (real (snd kc) / real len) * log 2 (real (snd kc) / real len)"
  by (simp add: entropy_step_def exact_arithmetic_def Let_def)



lemma entropy_step_nonneg:
  assumes "1 \<le> snd kc" "snd kc \<le> len" "0 \<le> acc"
  shows "0 \<le> entropy_step exact_arithmetic len acc kc"
proof -
  let ?p = "real (snd kc) / real len"
  have p: "0 < ?p" "?p \<le> 1" using assms by auto
  then have "log 2 ?p \<le> 0" by simp
  then have "?p * log 2 ?p \<le> 0" using p by (intro mult_nonneg_nonpos) auto
  then show ?thesis using assms by (simp add: entropy_step_exact)
qed

lemma entropy_step_mono:
  assumes "1 \<le> snd kc" "snd kc \<le> len"
  shows "acc \<le> entropy_step exact_arithmetic len acc kc"
  using entropy_step_nonneg[OF assms, of 0] by (simp add: entropy_step_exact)

lemma entropy_step_strict:
  assumes "1 \<le> snd kc" "snd kc < len"
  shows "acc < entropy_step exact_arithmetic len acc kc"
proof -
  let ?p = "real (snd kc) / real len"
  have p: "0 < ?p" "?p < 1" using assms by auto
  then have "log 2 ?p < 0" by simp
  then have "?p * log 2 ?p < 0" using p by (intro mult_pos_neg) auto
  then show ?thesis by (simp add: entropy_step_exact)
qed

lemma foldl_entropy_mono:
  "\<forall>kc\<in>set m. 1 \<le> snd kc \<and> snd kc \<le> len \<Longrightarrow> acc \<le> foldl (entropy_step exact_arithmetic len) acc m"
proof (induction m arbitrary: acc)
  case Nil then show ?case by simp
next
  case (Cons kc m)
  have "acc \<le> entropy_step exact_arithmetic len acc kc" using Cons.prems by (intro entropy_step_mono) auto
  also have "\<dots> \<le> foldl (entropy_step exact_arithmetic len) (entropy_step exact_arithmetic len acc kc) m"
    using Cons.prems by (intro Cons.IH) auto
  finally show ?case by simp
qed

lemma foldl_entropy_strict:
  "\<forall>kc\<in>set m. 1 \<le> snd kc \<and> snd kc \<le> len \<Longrightarrow> x \<in> set m \<Longrightarrow> snd x < len
     \<Longrightarrow> acc < foldl (entropy_step exact_arithmetic len) acc m"
proof (induction m arbitrary: acc)
  case Nil then show ?case by simp
next
  case (Cons kc m)
  have bounds: "\<forall>kc\<in>set m. 1 \<le> snd kc \<and> snd kc \<le> len" "1 \<le> snd kc" "snd kc \<le> len"
    using Cons.prems(1) by auto
  show ?case
  proof (cases "x = kc")
    case True
    then have "acc < entropy_step exact_arithmetic len acc kc" using bounds Cons.prems(3) by (intro entropy_step_strict) auto
    also have "\<dots> \<le> foldl (entropy_step exact_arithmetic len) (entropy_step exact_arithmetic len acc kc) m"
      using bounds(1) by (rule foldl_entropy_mono)
    finally show ?thesis by simp
  next
    case False
    then have "x \<in> set m" using Cons.prems(2) by simp
    have "acc \<le> entropy_step exact_arithmetic len acc kc" using bounds by (intro entropy_step_mono) auto
    also have "\<dots> < foldl (entropy_step exact_arithmetic len) (entropy_step exact_arithmetic len acc kc) m"
      using bounds(1) \<open>x \<in> set m\<close> Cons.prems(3) by (rule Cons.IH)
    finally show ?thesis by simp
  qed
qed

lemma entropy_pos:
  assumes "x \<in> set (byte_counts buf)" "snd x < length buf"
  shows "0 < calculateShannonEntropy exact_arithmetic buf"
proof -
  have "buf \<noteq> []" using assms(2) by auto
  moreover have "\<forall>kc\<in>set (byte_counts buf). 1 \<le> snd kc \<and> snd kc \<le> length buf"
    using byte_counts_bounds by blast
  ultimately show ?thesis
    using foldl_entropy_strict[OF _ assms, of 0] by (simp add: calculateShannonEntropy_def)
qed

subsection \<open>The level is the band of the entropy\<close>

lemma level_band:
  "level (classifyFileCriticality ops buf filename mime)
     = fst (entropy_band (calculateShannonEntropy ops buf))"
  by (simp add: classifyFileCriticality_def Let_def split: prod.splits)

lemma entropy_band_not_1: "fst (entropy_band x) \<in> {0, 2, 3, 4}"
  by (auto simp: entropy_band_def)

lemma level_values: "level (classifyFileCriticality ops buf filename mime) \<in> {0, 2, 3, 4}"
  unfolding level_band by (rule entropy_band_not_1)

lemma low_level_is_0:
  assumes "\<not> 2 \<le> level (classifyFileCriticality ops buf fn mt)"
  shows "level (classifyFileCriticality ops buf fn mt) = 0"
  using level_values[of ops buf fn mt] assms by auto

lemma level_le_4: "level (classifyFileCriticality ops buf fn mt) \<le> 4"
  using level_values[of ops buf fn mt] by auto

lemma classify_fields:
  "c_riskScore (classifyFileCriticality ops buf filename mime) = real (level (classifyFileCriticality ops buf filename mime))"
  "c_entropy (classifyFileCriticality ops buf filename mime) = calculateShannonEntropy ops buf"
  "reasons (classifyFileCriticality ops buf filename mime) = [snd (entropy_band (calculateShannonEntropy ops buf))]"
  by (simp_all add: classifyFileCriticality_def Let_def split: prod.splits)

subsection \<open>Logarithms\<close>

lemma entropy_step_log:
  "0 < c \<Longrightarrow> 0 < len \<Longrightarrow>
   entropy_step exact_arithmetic len acc (k, c)
     = acc - (real c / real len) * (log 2 (real c) - log 2 (real len))"
  by (simp add: entropy_step_exact log_divide)

lemma log2_pow: "log 2 (2 ^ n) = real n"
  by (subst log_nat_power) simp_all

lemma log2_32: "log 2 32 = 5"
  using log2_pow[of 5] by simp

lemma log2_4: "log 2 4 = 2"
  using log2_pow[of 2] by simp

lemma log2_39_less: "log 2 39 < 11 / 2"
proof -
  have "2 * log 2 39 = log 2 (39 ^ 2)" by (subst log_nat_power) simp_all
  also have "\<dots> < log 2 (2 ^ 11)" by (subst log_less_cancel_iff) simp_all
  also have "\<dots> = 11" using log2_pow[of 11] by simp
  finally show ?thesis by simp
qed

lemma log2_38_less: "log 2 38 < 11 / 2"
proof -
  have "2 * log 2 38 = log 2 (38 ^ 2)" by (subst log_nat_power) simp_all
  also have "\<dots> < log 2 (2 ^ 11)" by (subst log_less_cancel_iff) simp_all
  also have "\<dots> = 11" using log2_pow[of 11] by simp
  finally show ?thesis by simp
qed

lemma log2_3_ge: "3 / 2 \<le> log 2 3"
proof -
  have "3 = log 2 (2 ^ 3)" using log2_pow[of 3] by simp
  also have "\<dots> \<le> log 2 (3 ^ 2)" by (subst log_le_cancel_iff) simp_all
  also have "\<dots> = 2 * log 2 3" by (subst log_nat_power) simp_all
  finally show ?thesis by simp
qed

lemma log2_5_ge: "2 \<le> log 2 5"
proof -
  have "2 = log 2 (2 ^ 2)" using log2_pow[of 2] by simp
  also have "\<dots> \<le> log 2 5" by (subst log_le_cancel_iff) simp_all
  finally show ?thesis by simp
qed

lemma log2_7_ge: "2 \<le> log 2 7"
proof -
  have "2 = log 2 (2 ^ 2)" using log2_pow[of 2] by simp
  also have "\<dots> \<le> log 2 7" by (subst log_le_cancel_iff) simp_all
  finally show ?thesis by simp
qed

subsection \<open>Entropy and level of the example buffers\<close>



lemma single_byte_level: "level (classifyFileCriticality exact_arithmetic [b] fn mt) = 4"
  by (simp add: level_band entropy_band_def calculateShannonEntropy_def byte_counts_def entropy_step_exact)

lemma valid_text_length: "length valid_text = 39"
  by (simp add: valid_text_def)

lemma valid_text_entropy_less: "calculateShannonEntropy exact_arithmetic valid_text < 9 / 2"
  using log2_39_less log2_3_ge log2_5_ge log2_7_ge
  by (simp add: calculateShannonEntropy_def byte_counts_def valid_text_def entropy_step_log log2_4)
     (simp add: field_simps)

lemma valid_text_entropy_pos: "0 < calculateShannonEntropy exact_arithmetic valid_text"
proof -
  have "(0x54, 1) \<in> set (byte_counts valid_text)"
    by (simp add: byte_counts_def valid_text_def)
  then show ?thesis using entropy_pos[of "(0x54, 1)" valid_text] by (simp add: valid_text_length)
qed

lemma valid_text_level: "level (classifyFileCriticality exact_arithmetic valid_text fn mt) = 3"
  using valid_text_entropy_pos valid_text_entropy_less by (simp add: level_band entropy_band_def)

lemma test_text_length: "length test_text = 38"
  by (simp add: test_text_def)

lemma test_text_entropy_less: "calculateShannonEntropy exact_arithmetic test_text < 9 / 2"
  using log2_38_less log2_3_ge log2_5_ge log2_7_ge
  by (simp add: calculateShannonEntropy_def byte_counts_def test_text_def entropy_step_log log2_4)
     (simp add: field_simps)

lemma test_text_entropy_pos: "0 < calculateShannonEntropy exact_arithmetic test_text"
proof -
  have "(0x54, 1) \<in> set (byte_counts test_text)"
    by (simp add: byte_counts_def test_text_def)
  then show ?thesis using entropy_pos[of "(0x54, 1)" test_text] by (simp add: test_text_length)
qed

lemma test_text_level: "level (classifyFileCriticality exact_arithmetic test_text fn mt) = 3"
  using test_text_entropy_pos test_text_entropy_less by (simp add: level_band entropy_band_def)

lemma truncated_jpeg_length: "length truncated_jpeg = 32"
  by (simp add: truncated_jpeg_def)

lemma truncated_jpeg_ne: "truncated_jpeg \<noteq> []"
  using truncated_jpeg_length by auto

lemma truncated_jpeg_entropy: "calculateShannonEntropy exact_arithmetic truncated_jpeg = 79 / 16"
  by (simp add: calculateShannonEntropy_def byte_counts_def truncated_jpeg_def
        entropy_step_log log2_32)

lemma truncated_jpeg_level: "level (classifyFileCriticality exact_arithmetic truncated_jpeg fn mt) = 0"
  by (simp add: level_band entropy_band_def truncated_jpeg_entropy)

lemma plain_chars_length: "length plain_chars = 32"
  by (simp add: plain_chars_def)

lemma plain_chars_ne: "plain_chars \<noteq> []"
  using plain_chars_length by auto

lemma plain_chars_entropy: "calculateShannonEntropy exact_arithmetic plain_chars = 5"
  by (simp add: calculateShannonEntropy_def byte_counts_def plain_chars_def
        entropy_step_log log2_32)

lemma plain_chars_level: "level (classifyFileCriticality exact_arithmetic plain_chars fn mt) = 0"
  by (simp add: level_band entropy_band_def plain_chars_entropy)

subsection \<open>The five bands\<close>



section \<open>Properties of the validation\<close>

subsection \<open>The fields of the assessment\<close>

lemma validateFile_fields:
  assumes "buf \<noteq> []"
  shows "criticalityLevel (validateFile e buf fn mt) = Some (level (classifyFileCriticality (arithmetic e) buf fn mt))"
    and "riskScore (validateFile e buf fn mt) = real (level (classifyFileCriticality (arithmetic e) buf fn mt))"
    and "isValid (validateFile e buf fn mt) = (level (classifyFileCriticality (arithmetic e) buf fn mt) < 2)"
    and "isCorrupted (validateFile e buf fn mt) =
           (cc_isCorrupted (detectCorruption e buf fn) \<or> checkFileStructure e buf fn \<noteq> []
            \<or> 2 \<le> level (classifyFileCriticality (arithmetic e) buf fn mt))"
    and "issues (validateFile e buf fn mt) =
           cc_issues (detectCorruption e buf fn) @ checkFileStructure e buf fn
           @ reasons (classifyFileCriticality (arithmetic e) buf fn mt)"
    and "detectedType (validateFile e buf fn mt) = detectFileType buf"
    and "entropy (validateFile e buf fn mt) = calculateShannonEntropy (arithmetic e) buf"
  using assms
  by (auto simp: validateFile_def Let_def initial_validation_def classify_fields)

lemma cc_isCorrupted_iff: "cc_isCorrupted (detectCorruption e buf fn) = (cc_issues (detectCorruption e buf fn) \<noteq> [])"
  by (simp add: detectCorruption_def Let_def)

lemma short_buffer_issues:
  assumes "length buf \<le> 50"
  shows "cc_issues (detectCorruption e buf fn) = null_byte_issues buf fn @ repeated_pattern_issues buf"
  using assms by (simp add: detectCorruption_def Let_def null_ratio_issues_def entropy_issues_def)

subsection \<open>Missing end markers\<close>

lemma signature_matches_take:
  "length sig \<le> length buf \<Longrightarrow> signature_matches buf sig \<Longrightarrow> take (length sig) buf = sig"
  by (induction buf sig rule: signature_matches.induct) auto

lemma detected_png_signature:
  assumes "detectFileType buf = Some ''image/png''"
  shows "take 8 buf = [0x89, 0x50, 0x4E, 0x47, 0x0D, 0x0A, 0x1A, 0x0A]"
proof -
  have "8 \<le> length buf \<and> signature_matches buf [0x89, 0x50, 0x4E, 0x47, 0x0D, 0x0A, 0x1A, 0x0A]"
    using assms by (simp add: detectFileType_def FILE_SIGNATURES_def split: if_splits)
  moreover have "length [0x89, 0x50, 0x4E, 0x47, 0x0D, 0x0A, 0x1A, 0x0A :: byte] = 8" by simp
  ultimately show ?thesis
    using signature_matches_take[of "[0x89, 0x50, 0x4E, 0x47, 0x0D, 0x0A, 0x1A, 0x0A]" buf]
    by metis
qed

lemma jpeg_end_marker_issue:
  assumes "detectFileType buf = Some ''image/jpeg''" "10 < length buf"
    "drop (length buf - 2) buf \<noteq> [0xFF, 0xD9]" "fn \<noteq> []"
  shows "JpegTruncated \<in> set (checkFileStructure e buf fn)"
proof -
  obtain a b where ab: "drop (length buf - 2) buf = [a, b]"
  proof -
    have "length (drop (length buf - 2) buf) = 2" using assms(2) by simp
    then show ?thesis using that
      by (metis (no_types, opaque_lifting) One_nat_def Suc_1 length_0_conv length_Suc_conv)
  qed
  then have "(drop (length buf - 2) buf) ! 0 \<noteq> 0xFF \<or> (drop (length buf - 2) buf) ! 1 \<noteq> 0xD9"
    using assms(3) by auto
  then show ?thesis
    using assms(1,2,4)
    by (simp add: checkFileStructure_def Let_def startsWith_def validateImage_def)
qed

lemma png_end_chunk_issue:
  assumes "detectFileType buf = Some ''image/png''"  "8 < length buf"
    "drop (length buf - 8) buf \<noteq> [0x49, 0x45, 0x4E, 0x44, 0xAE, 0x42, 0x60, 0x82]" "fn \<noteq> []"
  shows "PngTruncated \<in> set (checkFileStructure e buf fn)"
proof -
  have "take 8 buf = [0x89, 0x50, 0x4E, 0x47, 0x0D, 0x0A, 0x1A, 0x0A]"
    using assms(1) by (rule detected_png_signature)
  then show ?thesis
    using assms
    by (simp add: checkFileStructure_def Let_def startsWith_def validateImage_def)
qed

subsection \<open>The example text\<close>

lemma valid_text_type: "detectFileType valid_text = Some ''application/octet-stream''"
  by (simp add: detectFileType_def valid_text_def FILE_SIGNATURES_def)

lemma valid_text_pattern: "checkRepeatedPattern valid_text = False"
  by (simp add: checkRepeatedPattern_def pattern_of_length_def valid_text_def)

lemma valid_text_no_null: "(0::byte) \<notin> set valid_text"
  by (simp add: valid_text_def)

lemma valid_text_corruption: "cc_issues (detectCorruption e valid_text ''valid.txt'') = []"
  by (simp add: short_buffer_issues valid_text_length null_byte_issues_def valid_text_no_null
        repeated_pattern_issues_def valid_text_pattern)

lemma valid_text_structure: "checkFileStructure e valid_text ''valid.txt'' = []"
  by (simp add: checkFileStructure_def valid_text_type extension_issues_def Let_def startsWith_def)

subsection \<open>The truncated JPEG\<close>

lemma truncated_jpeg_type: "detectFileType truncated_jpeg = Some ''image/jpeg''"
  by (simp add: detectFileType_def truncated_jpeg_def FILE_SIGNATURES_def)

lemma truncated_jpeg_pattern: "checkRepeatedPattern truncated_jpeg = False"
  by (simp add: checkRepeatedPattern_def pattern_of_length_def truncated_jpeg_def)

lemma photo_not_text: "text_extension_regex ''photo.jpg'' = False"
  by (simp add: text_extension_regex_def toLowerCase_def split_dot_pop_def to_lower_char_def)

lemma truncated_jpeg_corruption: "cc_issues (detectCorruption e truncated_jpeg ''photo.jpg'') = []"
  by (simp add: short_buffer_issues truncated_jpeg_length null_byte_issues_def photo_not_text
        repeated_pattern_issues_def truncated_jpeg_pattern)

lemma truncated_jpeg_end: "drop 30 truncated_jpeg = [27, 28]"
  by (simp add: truncated_jpeg_def)

lemma truncated_jpeg_structure:
  "checkFileStructure e truncated_jpeg ''photo.jpg'' = JpegTruncated # sharp_issues e truncated_jpeg ''JPEG''"
  by (simp add: checkFileStructure_def truncated_jpeg_type extension_issues_def Let_def
        startsWith_def typeMismatches_def toLowerCase_def split_dot_pop_def to_lower_char_def
        validateImage_def truncated_jpeg_length truncated_jpeg_end)

lemma truncated_jpeg_validation:
  assumes "arithmetic e = exact_arithmetic"
  shows "riskScore (validateFile e truncated_jpeg ''photo.jpg'' mt) = 0"
  "isCorrupted (validateFile e truncated_jpeg ''photo.jpg'' mt) = True"
  "isValid (validateFile e truncated_jpeg ''photo.jpg'' mt) = True"
  "criticalityLevel (validateFile e truncated_jpeg ''photo.jpg'' mt) = Some 0"
  using assms
  by (simp_all add: validateFile_fields[OF truncated_jpeg_ne] truncated_jpeg_level
        truncated_jpeg_structure)

subsection \<open>The plain characters\<close>

lemma plain_chars_type: "detectFileType plain_chars = Some ''application/octet-stream''"
  by (simp add: detectFileType_def plain_chars_def FILE_SIGNATURES_def)

lemma plain_chars_pattern: "checkRepeatedPattern plain_chars = False"
  by (simp add: checkRepeatedPattern_def pattern_of_length_def plain_chars_def)

lemma plain_chars_no_null: "(0::byte) \<notin> set plain_chars"
  by (simp add: plain_chars_def)

lemma plain_chars_corruption: "cc_issues (detectCorruption e plain_chars ''notes.txt'') = []"
  by (simp add: short_buffer_issues plain_chars_length null_byte_issues_def plain_chars_no_null
        repeated_pattern_issues_def plain_chars_pattern)

lemma plain_chars_structure: "checkFileStructure e plain_chars ''notes.txt'' = []"
  by (simp add: checkFileStructure_def plain_chars_type extension_issues_def Let_def startsWith_def)

lemma plain_chars_validation:
  assumes "arithmetic e = exact_arithmetic"
  shows "riskScore (validateFile e plain_chars ''notes.txt'' mt) = 0"
  "isCorrupted (validateFile e plain_chars ''notes.txt'' mt) = False"
  "criticalityLevel (validateFile e plain_chars ''notes.txt'' mt) = Some 0"
  using assms
  by (simp_all add: validateFile_fields[OF plain_chars_ne] plain_chars_level cc_isCorrupted_iff
        plain_chars_corruption plain_chars_structure)

section \<open>Properties of the upload handler\<close>

subsection \<open>The branches of the handler\<close>

lemma uploadHandler_checked:
  assumes "req_file req = Some f" "f_buffer f = Some buf" "buf \<noteq> []" "f_size f \<le> maxSize"
  shows "uploadHandler e req w =
     (if 2 \<le> level (classifyFileCriticality (arithmetic e) buf (originalname f) (mimetype f))
      then reject_by_level req f (validateFile e buf (originalname f) (mimetype f)) w
      else analyse_and_decide e req f buf (validateFile e buf (originalname f) (mimetype f)) w)"
  using assms by (simp add: uploadHandler_def Let_def validateFile_fields(1))

lemma uploadHandler_unchecked:
  assumes "req_file req = None \<or> (\<exists>f. req_file req = Some f \<and>
             (f_buffer f = None \<or> f_buffer f = Some [] \<or> maxSize < f_size f))"
  shows "snd (uploadHandler e req w) = w \<and> outcome_of (fst (uploadHandler e req w)) = None"
  using assms by (auto simp: uploadHandler_def split: option.splits)

lemma reject_by_level_effect:
  "outcome_of (fst (reject_by_level req f v w)) = Some REJECT"
  "transfers (snd (reject_by_level req f v w)) = transfers w"
  "ids_requests (snd (reject_by_level req f v w)) = ids_requests w"
  "\<exists>a. alerts (snd (reject_by_level req f v w)) = alerts w @ [a]
       \<and> details_ids (details a) = None \<and> details_entropy (details a) = Some (entropy v)
       \<and> d_issues (details a) = issues v \<and> d_detected_type (details a) = detectedType v
       \<and> confidence a = min (riskScore v) 1 \<and> ml_score a = min (riskScore v) 1"
  by (simp_all add: reject_by_level_def Let_def)

lemma reject_after_ids_effect:
  "outcome_of (fst (reject_after_ids req f v r w)) = Some REJECT"
  "transfers (snd (reject_after_ids req f v r w)) = transfers w"
  "ids_requests (snd (reject_after_ids req f v r w)) = ids_requests w"
  "\<exists>a. alerts (snd (reject_after_ids req f v r w)) = alerts w @ [a]
       \<and> details_ids (details a) = Some r \<and> details_entropy (details a) = None
       \<and> d_issues (details a) = issues v \<and> d_detected_type (details a) = detectedType v
       \<and> confidence a = max (anomaly_score r) (riskScore v)
       \<and> ml_score a = max (anomaly_score r) (riskScore v)"
  by (simp_all add: reject_after_ids_def Let_def)

lemma store_transfer_effect:
  "outcome_of (fst (store_transfer req f ef r w)) = Some ACCEPT"
  "alerts (snd (store_transfer req f ef r w)) = alerts w"
  "ids_requests (snd (store_transfer req f ef r w)) = ids_requests w"
  "\<exists>doc. transfers (snd (store_transfer req f ef r w)) = transfers w @ [doc]
       \<and> t_ids_result doc = r \<and> t_filename doc = originalname f \<and> t_size doc = f_size f"
  by (simp_all add: store_transfer_def Let_def)

lemma analyse_and_decide_cases:
  "analyse_and_decide e req f buf v w =
     (if blocks (ids_analysis e (fileFeatures f (getEntropyFeatures e buf) v) v) v
      then reject_after_ids req f v (ids_analysis e (fileFeatures f (getEntropyFeatures e buf) v) v)
             (w \<lparr> ids_requests := ids_requests w @ [fileFeatures f (getEntropyFeatures e buf) v] \<rparr>)
      else store_transfer req f (getEntropyFeatures e buf)
             (ids_analysis e (fileFeatures f (getEntropyFeatures e buf) v) v)
             (w \<lparr> ids_requests := ids_requests w @ [fileFeatures f (getEntropyFeatures e buf) v] \<rparr>))"
  by (simp add: analyse_and_decide_def Let_def)

lemma ids_analysis_level0:
  assumes "riskScore v = 0"
  shows "ids_analysis e features v =
     (case callIDS e features of
        Inr r \<Rightarrow> r
      | Inl message \<Rightarrow> \<lparr> anomaly_score = 0.8, verdict = ''suspicious'',
                          error = Some ''IDS service unavailable'' \<rparr>)"
  using assms by (simp add: ids_analysis_def split: sum.splits)

lemma upload_outcome:
  assumes "req_file req = Some f" "f_buffer f = Some buf" "buf \<noteq> []" "f_size f \<le> maxSize"
  shows "outcome_of (fst (uploadHandler e req w)) =
     Some (if 2 \<le> level (classifyFileCriticality (arithmetic e) buf (originalname f) (mimetype f))
              \<or> isCorrupted (validateFile e buf (originalname f) (mimetype f))
              \<or> (case callIDS e (fileFeatures f (getEntropyFeatures e buf)
                                   (validateFile e buf (originalname f) (mimetype f))) of
                    Inl message \<Rightarrow> True
                  | Inr r \<Rightarrow> verdict r = ''suspicious'')
           then REJECT else ACCEPT)"
proof (cases "2 \<le> level (classifyFileCriticality (arithmetic e) buf (originalname f) (mimetype f))")
  case True
  then show ?thesis
    by (simp add: uploadHandler_checked[OF assms] reject_by_level_effect)
next
  case False
  then have l0: "level (classifyFileCriticality (arithmetic e) buf (originalname f) (mimetype f)) = 0"
    by (rule low_level_is_0)
  then have r0: "riskScore (validateFile e buf (originalname f) (mimetype f)) = 0"
    by (simp add: validateFile_fields(2)[OF assms(3)])
  show ?thesis
    using False r0
    by (simp add: uploadHandler_checked[OF assms] analyse_and_decide_cases
          reject_after_ids_effect store_transfer_effect blocks_def ids_analysis_level0
          split: sum.splits)
qed

lemma upload_corrupted_rejected:
  assumes "req_file req = Some f" "f_buffer f = Some buf" "buf \<noteq> []" "f_size f \<le> maxSize"
    "isCorrupted (validateFile e buf (originalname f) (mimetype f))"
  shows "outcome_of (fst (uploadHandler e req w)) = Some REJECT"
  using upload_outcome[OF assms(1-4), of e w] assms(5) by simp

subsection \<open>The example uploads\<close>

lemma upload_of_handler:
  assumes "buf \<noteq> []" "length buf \<le> maxSize"
  shows "uploadHandler e (upload_of buf n m) w =
     (if 2 \<le> level (classifyFileCriticality (arithmetic e) buf n m)
      then reject_by_level (upload_of buf n m) (file_of buf n m) (validateFile e buf n m) w
      else analyse_and_decide e (upload_of buf n m) (file_of buf n m) buf
             (validateFile e buf n m) w)"
  using uploadHandler_checked[of "upload_of buf n m" "file_of buf n m" buf e w] assms
  by (simp add: upload_of_def file_of_def)

lemma ids_of_envs:
  "callIDS env_normal features = Inr \<lparr> anomaly_score = 0.1, verdict = ''normal'', error = None \<rparr>"
  "callIDS env_high_score features = Inr \<lparr> anomaly_score = 1, verdict = ''normal'', error = None \<rparr>"
  "callIDS env_ids_down features = Inl ''connect ECONNREFUSED''"
  by (simp_all add: env_normal_def env_high_score_def env_ids_down_def)

lemma arith_of_envs:
  "arithmetic env_normal = exact_arithmetic"
  "arithmetic env_high_score = exact_arithmetic"
  "arithmetic env_ids_down = exact_arithmetic"
  by (simp_all add: env_normal_def env_high_score_def env_ids_down_def)

declare arith_of_envs [simp]


lemma valid_text_upload:
  assumes "arithmetic e = exact_arithmetic"
  shows "uploadHandler e (upload_of valid_text ''valid.txt'' ''text/plain'') w
     = reject_by_level (upload_of valid_text ''valid.txt'' ''text/plain'')
         (file_of valid_text ''valid.txt'' ''text/plain'')
         (validateFile e valid_text ''valid.txt'' ''text/plain'') w"
proof -
  have "valid_text \<noteq> []" using valid_text_length by auto
  then show ?thesis
    using assms by (simp add: upload_of_handler valid_text_length maxSize_def valid_text_level)
qed

lemma test_text_upload:
  assumes "arithmetic e = exact_arithmetic"
  shows "uploadHandler e (upload_of test_text ''valid.txt'' ''text/plain'') w
     = reject_by_level (upload_of test_text ''valid.txt'' ''text/plain'')
         (file_of test_text ''valid.txt'' ''text/plain'')
         (validateFile e test_text ''valid.txt'' ''text/plain'') w"
proof -
  have "test_text \<noteq> []" using test_text_length by auto
  then show ?thesis
    using assms by (simp add: upload_of_handler test_text_length maxSize_def test_text_level)
qed

lemma plain_chars_upload:
  assumes "arithmetic e = exact_arithmetic"
  shows "uploadHandler e (upload_of plain_chars ''notes.txt'' ''text/plain'') w
     = analyse_and_decide e (upload_of plain_chars ''notes.txt'' ''text/plain'')
         (file_of plain_chars ''notes.txt'' ''text/plain'') plain_chars
         (validateFile e plain_chars ''notes.txt'' ''text/plain'') w"
  using assms
  by (simp add: upload_of_handler plain_chars_ne plain_chars_length maxSize_def plain_chars_level)

lemma truncated_jpeg_upload:
  assumes "arithmetic e = exact_arithmetic"
  shows "uploadHandler e (upload_of truncated_jpeg ''photo.jpg'' ''image/jpeg'') w
     = analyse_and_decide e (upload_of truncated_jpeg ''photo.jpg'' ''image/jpeg'')
         (file_of truncated_jpeg ''photo.jpg'' ''image/jpeg'') truncated_jpeg
         (validateFile e truncated_jpeg ''photo.jpg'' ''image/jpeg'') w"
  using assms
  by (simp add: upload_of_handler truncated_jpeg_ne truncated_jpeg_length maxSize_def
        truncated_jpeg_level)

subsection \<open>Empty and oversized uploads\<close>

text \<open>
  C6. An upload whose buffer has length 0 is answered with the error
  "File is empty or invalid" (status 400), which is no verdict: no alert is created, no
  transfer is stored and the IDS service is not called. \<^verbatim>\<open>validateFile\<close> on the empty
  buffer returns an assessment without any criticality level.
\<close>

theorem empty_buffer_is_an_error:
  assumes "req_file req = Some f" "f_buffer f = Some []"
  shows "uploadHandler e req w = (Response400 ''File is empty or invalid'', w)
     \<and> outcome_of (fst (uploadHandler e req w)) = None
     \<and> criticalityLevel (validateFile e [] (originalname f) (mimetype f)) = None
     \<and> isValid (validateFile e [] (originalname f) (mimetype f)) = False
     \<and> issues (validateFile e [] (originalname f) (mimetype f)) = [FileIsEmpty]"
  using assms by (simp add: uploadHandler_def validateFile_def initial_validation_def)

text \<open>
The upload of an empty buffer named empty.txt.
\<close>

theorem empty_buffer_is_an_error_witness:
  "req_file (upload_of [] ''empty.txt'' ''text/plain'') = Some (file_of [] ''empty.txt'' ''text/plain'')
   \<and> f_buffer (file_of [] ''empty.txt'' ''text/plain'') = Some []
   \<and> uploadHandler env_normal (upload_of [] ''empty.txt'' ''text/plain'') empty_world
        = (Response400 ''File is empty or invalid'', empty_world)"
proof -
  have pre: "req_file (upload_of [] ''empty.txt'' ''text/plain'') = Some (file_of [] ''empty.txt'' ''text/plain'')"
    "f_buffer (file_of [] ''empty.txt'' ''text/plain'') = Some []"
    by (simp_all add: upload_of_def file_of_def)
  show ?thesis
    using empty_buffer_is_an_error[OF pre, of env_normal empty_world] pre by simp
qed

text \<open>
  C10. An upload whose size exceeds 100 * 1024 * 1024 bytes is answered with an error
  of status 400 and the state is left as it was: no alert, no transfer, no request to
  the IDS service. For a non-empty buffer the error is "File size exceeds 100MB limit".
\<close>

theorem oversized_upload_is_refused:
  assumes "req_file req = Some f" "100 * 1024 * 1024 < f_size f"
  shows "snd (uploadHandler e req w) = w
     \<and> outcome_of (fst (uploadHandler e req w)) = None
     \<and> (\<exists>msg. fst (uploadHandler e req w) = Response400 msg)
     \<and> (\<forall>buf. f_buffer f = Some buf \<and> buf \<noteq> []
          \<longrightarrow> fst (uploadHandler e req w) = Response400 ''File size exceeds 100MB limit'')"
  using assms by (auto simp: uploadHandler_def maxSize_def split: option.splits)

text \<open>
The upload of 104857601 bytes.
\<close>

theorem oversized_upload_is_refused_witness:
  "req_file (upload_of (replicate 104857601 0x41) ''big.bin'' ''application/octet-stream'')
      = Some (file_of (replicate 104857601 0x41) ''big.bin'' ''application/octet-stream'')
   \<and> 100 * 1024 * 1024
        < f_size (file_of (replicate 104857601 0x41) ''big.bin'' ''application/octet-stream'')
   \<and> uploadHandler env_normal
        (upload_of (replicate 104857601 0x41) ''big.bin'' ''application/octet-stream'') empty_world
      = (Response400 ''File size exceeds 100MB limit'', empty_world)"
proof -
  have pre: "req_file (upload_of (replicate 104857601 0x41) ''big.bin'' ''application/octet-stream'')
      = Some (file_of (replicate 104857601 0x41) ''big.bin'' ''application/octet-stream'')"
    "100 * 1024 * 1024
        < f_size (file_of (replicate 104857601 0x41) ''big.bin'' ''application/octet-stream'')"
    "f_buffer (file_of (replicate 104857601 0x41) ''big.bin'' ''application/octet-stream'')
        = Some (replicate 104857601 0x41)"
    "replicate 104857601 (0x41 :: byte) \<noteq> []"
    by (simp_all add: upload_of_def file_of_def)
  show ?thesis
    using oversized_upload_is_refused[OF pre(1,2), of env_normal empty_world] pre
    by (metis prod.collapse)
qed

subsection \<open>Structural findings and the criticality level\<close>

text \<open>
  C1, as amended. For every non-empty buffer the criticality level of the assessment is
  the level of the entropy band, whatever the structural check finds, and
  \<^verbatim>\<open>isValid\<close> is false exactly when that level is at least 2. When the structural
  check yields an issue, the assessment is marked corrupted, carries the issue, and every
  upload of the file within the size limit is rejected. A buffer detected as JPEG, longer
  than 10 bytes and not ending in FF D9, and a buffer detected as PNG, longer than 8 bytes
  and not ending in the IEND chunk, yield such an issue when a file name is given.
\<close>

theorem structural_findings_keep_level:
  assumes "buf \<noteq> []"
  shows "(checkFileStructure e buf fn \<noteq> [] \<longrightarrow>
            isCorrupted (validateFile e buf fn mt)
            \<and> set (checkFileStructure e buf fn) \<subseteq> set (issues (validateFile e buf fn mt))
            \<and> (\<forall>req f w. req_file req = Some f \<and> f_buffer f = Some buf \<and> originalname f = fn
                   \<and> mimetype f = mt \<and> f_size f \<le> maxSize
                 \<longrightarrow> outcome_of (fst (uploadHandler e req w)) = Some REJECT))
       \<and> criticalityLevel (validateFile e buf fn mt)
            = Some (fst (entropy_band (calculateShannonEntropy (arithmetic e) buf)))
       \<and> isValid (validateFile e buf fn mt)
            = (fst (entropy_band (calculateShannonEntropy (arithmetic e) buf)) < 2)
       \<and> (detectFileType buf = Some ''image/jpeg'' \<and> 10 < length buf
            \<and> drop (length buf - 2) buf \<noteq> [0xFF, 0xD9] \<and> fn \<noteq> []
          \<longrightarrow> JpegTruncated \<in> set (checkFileStructure e buf fn))
       \<and> (detectFileType buf = Some ''image/png'' \<and> 8 < length buf
            \<and> drop (length buf - 8) buf \<noteq> [0x49, 0x45, 0x4E, 0x44, 0xAE, 0x42, 0x60, 0x82]
            \<and> fn \<noteq> []
          \<longrightarrow> PngTruncated \<in> set (checkFileStructure e buf fn))"
proof -
  have rej: "outcome_of (fst (uploadHandler e req w)) = Some REJECT"
    if "checkFileStructure e buf fn \<noteq> []" "req_file req = Some f" "f_buffer f = Some buf"
       "originalname f = fn" "mimetype f = mt" "f_size f \<le> maxSize" for req f w
    using upload_corrupted_rejected[OF that(2,3) assms that(6), of e w] that(1,4,5)
    by (simp add: validateFile_fields(4)[OF assms])
  show ?thesis
    using jpeg_end_marker_issue[of buf fn e] png_end_chunk_issue[of buf fn e] rej
    by (auto simp: validateFile_fields[OF assms] level_band)
qed

text \<open>
The amended statement at the truncated JPEG.
\<close>

theorem structural_findings_keep_level_witness:
  "truncated_jpeg \<noteq> []
   \<and> checkFileStructure env_normal truncated_jpeg ''photo.jpg'' \<noteq> []
   \<and> isCorrupted (validateFile env_normal truncated_jpeg ''photo.jpg'' ''image/jpeg'')
   \<and> criticalityLevel (validateFile env_normal truncated_jpeg ''photo.jpg'' ''image/jpeg'')
        = Some (fst (entropy_band (calculateShannonEntropy exact_arithmetic truncated_jpeg)))
   \<and> JpegTruncated \<in> set (checkFileStructure env_normal truncated_jpeg ''photo.jpg'')"
  using structural_findings_keep_level[OF truncated_jpeg_ne, of env_normal "''photo.jpg''" "''image/jpeg''"]
  by (simp add: truncated_jpeg_ne truncated_jpeg_structure)

text \<open>
  A structurally broken file can be reported at level 0: the truncated JPEG starts with
  the JPEG signature and does not end in FF D9, its entropy is 4.9375, and its assessment
  is valid at level 0.
\<close>

theorem structural_level_counterexample:
  "detectFileType truncated_jpeg = Some ''image/jpeg''
   \<and> drop (length truncated_jpeg - 2) truncated_jpeg = [27, 28]
   \<and> JpegTruncated \<in> set (checkFileStructure env_normal truncated_jpeg ''photo.jpg'')
   \<and> isValid (validateFile env_normal truncated_jpeg ''photo.jpg'' ''image/jpeg'') = True
   \<and> criticalityLevel (validateFile env_normal truncated_jpeg ''photo.jpg'' ''image/jpeg'') = Some 0"
  by (simp add: truncated_jpeg_type truncated_jpeg_length truncated_jpeg_end
        truncated_jpeg_structure truncated_jpeg_validation)

subsection \<open>The risk score\<close>

text \<open>
  C7, as amended. The risk score of an assessment of a non-empty buffer is the criticality
  level itself, a number from 0 to 4, so it is monotone in the level and can exceed 1. It
  is 0 whenever the level is below 2, which are the assessments that reach the IDS
  analysis; the confidence of the alert written when the level blocks the file is the
  score capped at 1, and lies between 0 and 1.
\<close>

theorem risk_score_is_level:
  assumes "buf1 \<noteq> []" "buf2 \<noteq> []"
  shows "riskScore (validateFile e buf1 fn1 mt1) = real (level (classifyFileCriticality (arithmetic e) buf1 fn1 mt1))
     \<and> criticalityLevel (validateFile e buf1 fn1 mt1) = Some (level (classifyFileCriticality (arithmetic e) buf1 fn1 mt1))
     \<and> 0 \<le> riskScore (validateFile e buf1 fn1 mt1) \<and> riskScore (validateFile e buf1 fn1 mt1) \<le> 4
     \<and> (level (classifyFileCriticality (arithmetic e) buf1 fn1 mt1) \<le> level (classifyFileCriticality (arithmetic e) buf2 fn2 mt2)
          \<longrightarrow> riskScore (validateFile e buf1 fn1 mt1) \<le> riskScore (validateFile e buf2 fn2 mt2))
     \<and> (level (classifyFileCriticality (arithmetic e) buf1 fn1 mt1) < 2
          \<longrightarrow> riskScore (validateFile e buf1 fn1 mt1) = 0)
     \<and> map confidence (alerts (snd (reject_by_level req f (validateFile e buf1 fn1 mt1) empty_world)))
          = [min (riskScore (validateFile e buf1 fn1 mt1)) 1]
     \<and> 0 \<le> min (riskScore (validateFile e buf1 fn1 mt1)) 1
     \<and> min (riskScore (validateFile e buf1 fn1 mt1)) 1 \<le> 1"
  using level_le_4[of "arithmetic e" buf1 fn1 mt1] low_level_is_0[of "arithmetic e" buf1 fn1 mt1]
  by (auto simp: validateFile_fields[OF assms(1)] validateFile_fields[OF assms(2)]
        reject_by_level_def Let_def empty_world_def)

text \<open>
The amended statement at the plain characters (level 0) and a single byte (level 4).
\<close>

theorem risk_score_is_level_witness:
  "plain_chars \<noteq> [] \<and> [0x41 :: byte] \<noteq> []
   \<and> riskScore (validateFile env_normal plain_chars ''notes.txt'' ''text/plain'') = 0
   \<and> riskScore (validateFile env_normal [0x41] ''a.txt'' ''text/plain'') = 4
   \<and> riskScore (validateFile env_normal plain_chars ''notes.txt'' ''text/plain'')
        \<le> riskScore (validateFile env_normal [0x41] ''a.txt'' ''text/plain'')"
  using risk_score_is_level[OF plain_chars_ne, of "[0x41]" env_normal "''notes.txt''" "''text/plain''"
          "''a.txt''" "''text/plain''"]
        risk_score_is_level[of "[0x41]" plain_chars env_normal "''a.txt''" "''text/plain''"
          "''notes.txt''" "''text/plain''"]
  by (simp add: plain_chars_ne plain_chars_level single_byte_level)

text \<open>
The risk score can exceed 1: the assessment of a single byte has risk score 4.
\<close>

theorem risk_proxy_counterexample:
  "riskScore (validateFile env_normal [0x41] ''a.txt'' ''text/plain'') = 4
   \<and> 1 < riskScore (validateFile env_normal [0x41] ''a.txt'' ''text/plain'')"
  by (simp add: validateFile_fields single_byte_level)

subsection \<open>The decision\<close>

text \<open>
  C3, as amended. For every upload that passes the input checks the outcome is REJECT if
  and only if the criticality level is at least 2, or the assessment is marked corrupted,
  or the call of the IDS service failed, or the verdict label it returned is
  "suspicious"; otherwise the outcome is ACCEPT. The anomaly score returned by the
  service does not enter the decision.
\<close>

theorem upload_reject_iff:
  assumes "req_file req = Some f" "f_buffer f = Some buf" "buf \<noteq> []" "f_size f \<le> maxSize"
  shows "outcome_of (fst (uploadHandler e req w)) =
     Some (if 2 \<le> level (classifyFileCriticality (arithmetic e) buf (originalname f) (mimetype f))
              \<or> isCorrupted (validateFile e buf (originalname f) (mimetype f))
              \<or> (case callIDS e (fileFeatures f (getEntropyFeatures e buf)
                                   (validateFile e buf (originalname f) (mimetype f))) of
                    Inl message \<Rightarrow> True
                  | Inr r \<Rightarrow> verdict r = ''suspicious'')
           then REJECT else ACCEPT)"
  using assms by (rule upload_outcome)

text \<open>
The amended statement at the plain characters: accepted when the service answers
  "normal", rejected when the service cannot be reached.
\<close>

theorem upload_reject_iff_witness:
  "req_file (upload_of plain_chars ''notes.txt'' ''text/plain'')
      = Some (file_of plain_chars ''notes.txt'' ''text/plain'')
   \<and> f_buffer (file_of plain_chars ''notes.txt'' ''text/plain'') = Some plain_chars
   \<and> plain_chars \<noteq> []
   \<and> f_size (file_of plain_chars ''notes.txt'' ''text/plain'') \<le> maxSize
   \<and> outcome_of (fst (uploadHandler env_normal
        (upload_of plain_chars ''notes.txt'' ''text/plain'') empty_world)) = Some ACCEPT
   \<and> outcome_of (fst (uploadHandler env_ids_down
        (upload_of plain_chars ''notes.txt'' ''text/plain'') empty_world)) = Some REJECT"
proof -
  have pre: "req_file (upload_of plain_chars ''notes.txt'' ''text/plain'')
      = Some (file_of plain_chars ''notes.txt'' ''text/plain'')"
    "f_buffer (file_of plain_chars ''notes.txt'' ''text/plain'') = Some plain_chars"
    "f_size (file_of plain_chars ''notes.txt'' ''text/plain'') \<le> maxSize"
    by (simp_all add: upload_of_def file_of_def plain_chars_length maxSize_def)
  have names: "originalname (file_of plain_chars ''notes.txt'' ''text/plain'') = ''notes.txt''"
    "mimetype (file_of plain_chars ''notes.txt'' ''text/plain'') = ''text/plain''"
    by (simp_all add: file_of_def)
  show ?thesis
    using upload_reject_iff[OF pre(1,2) plain_chars_ne pre(3), of env_normal empty_world]
      upload_reject_iff[OF pre(1,2) plain_chars_ne pre(3), of env_ids_down empty_world]
      pre plain_chars_ne
    by (simp add: names plain_chars_level plain_chars_validation ids_of_envs)
qed

text \<open>
  A high score alone does not reject, and a file can be rejected with a low score, a
  low level and a "normal" verdict. The plain characters are stored although the service
  returned the score 1 with the verdict "normal"; the truncated JPEG is rejected at
  level 0, with the service returning score 0.1 and verdict "normal".
\<close>

theorem fusion_rule_counterexample:
  "outcome_of (fst (uploadHandler env_high_score
       (upload_of plain_chars ''notes.txt'' ''text/plain'') empty_world)) = Some ACCEPT
   \<and> map t_ids_result (transfers (snd (uploadHandler env_high_score
       (upload_of plain_chars ''notes.txt'' ''text/plain'') empty_world)))
       = [\<lparr> anomaly_score = 1, verdict = ''normal'', error = None \<rparr>]
   \<and> outcome_of (fst (uploadHandler env_normal
       (upload_of truncated_jpeg ''photo.jpg'' ''image/jpeg'') empty_world)) = Some REJECT
   \<and> criticalityLevel (validateFile env_normal truncated_jpeg ''photo.jpg'' ''image/jpeg'') = Some 0
   \<and> map (details_ids \<circ> details) (alerts (snd (uploadHandler env_normal
       (upload_of truncated_jpeg ''photo.jpg'' ''image/jpeg'') empty_world)))
       = [Some \<lparr> anomaly_score = 0.1, verdict = ''normal'', error = None \<rparr>]
   \<and> map confidence (alerts (snd (uploadHandler env_normal
       (upload_of truncated_jpeg ''photo.jpg'' ''image/jpeg'') empty_world))) = [0.1]"
  by (simp add: plain_chars_upload truncated_jpeg_upload analyse_and_decide_cases
        ids_analysis_level0 plain_chars_validation truncated_jpeg_validation ids_of_envs
        blocks_def store_transfer_def reject_after_ids_def empty_world_def Let_def)

subsection \<open>Failure of the IDS service\<close>

lemma env_score_08_fields:
  "callIDS env_score_08 features
     = Inr \<lparr> anomaly_score = 0.8, verdict = ''normal'', error = None \<rparr>"
  "arithmetic env_score_08 = exact_arithmetic"
  by (simp_all add: env_score_08_def env_normal_def)

text \<open>
  C2, as amended. When the call of the IDS service fails, the handler does not fail: the
  upload is decided, with the outcome REJECT and nothing stored. Exactly one alert is
  written; it carries the substitute result with its error marker, whose score is the
  maximum of the risk score and the fixed floor 0.8 and whose verdict label is
  "suspicious", and the confidence of the alert is that same maximum, at least 0.8.
  The condition of line 248 holds of the substitute result through its verdict label:
  with the label "normal" and the same score it would hold only of a corrupted file.
\<close>

theorem oracle_failure_forces_rejection:
  assumes "req_file req = Some f" "f_buffer f = Some buf" "buf \<noteq> []" "f_size f \<le> maxSize"
    "level (classifyFileCriticality (arithmetic e) buf (originalname f) (mimetype f)) < 2"
    "callIDS e (fileFeatures f (getEntropyFeatures e buf)
        (validateFile e buf (originalname f) (mimetype f))) = Inl message"
  shows "outcome_of (fst (uploadHandler e req w)) = Some REJECT
     \<and> transfers (snd (uploadHandler e req w)) = transfers w
     \<and> (\<exists>a r. alerts (snd (uploadHandler e req w)) = alerts w @ [a]
            \<and> details_ids (details a) = Some r
            \<and> error r \<noteq> None
            \<and> verdict r = ''suspicious''
            \<and> anomaly_score r = max (riskScore (validateFile e buf (originalname f) (mimetype f))) 0.8
            \<and> confidence a = max (riskScore (validateFile e buf (originalname f) (mimetype f))) 0.8
            \<and> ml_score a = confidence a
            \<and> 0.8 \<le> confidence a
            \<and> blocks r (validateFile e buf (originalname f) (mimetype f))
            \<and> blocks (r \<lparr> verdict := ''normal'' \<rparr>)
                 (validateFile e buf (originalname f) (mimetype f))
               = isCorrupted (validateFile e buf (originalname f) (mimetype f)))"
proof -
  let ?v = "validateFile e buf (originalname f) (mimetype f)"
  let ?ft = "fileFeatures f (getEntropyFeatures e buf) ?v"
  let ?w = "w \<lparr> ids_requests := ids_requests w @ [?ft] \<rparr>"
  have low: "\<not> 2 \<le> level (classifyFileCriticality (arithmetic e) buf (originalname f) (mimetype f))"
    using assms(5) by simp
  then have r0: "riskScore ?v = 0"
    using low_level_is_0[OF low] by (simp add: validateFile_fields(2)[OF assms(3)])
  have ids: "ids_analysis e ?ft ?v = \<lparr> anomaly_score = 0.8, verdict = ''suspicious'',
                          error = Some ''IDS service unavailable'' \<rparr>"
    by (simp add: ids_analysis_level0[OF r0] assms(6))
  have up: "uploadHandler e req w = reject_after_ids req f ?v (ids_analysis e ?ft ?v) ?w"
    using low by (simp add: uploadHandler_checked[OF assms(1-4)] analyse_and_decide_cases ids blocks_def)
  show ?thesis
    using reject_after_ids_effect(4)[of req f ?v "ids_analysis e ?ft ?v" ?w]
    by (auto simp: up reject_after_ids_effect(1,2) ids r0 blocks_def)
qed

text \<open>
The plain characters uploaded while the service cannot be reached.
\<close>

theorem oracle_failure_forces_rejection_witness:
  "plain_chars \<noteq> []
   \<and> level (classifyFileCriticality (arithmetic env_ids_down) plain_chars ''notes.txt'' ''text/plain'') < 2
   \<and> outcome_of (fst (uploadHandler env_ids_down
        (upload_of plain_chars ''notes.txt'' ''text/plain'') empty_world)) = Some REJECT
   \<and> transfers (snd (uploadHandler env_ids_down
        (upload_of plain_chars ''notes.txt'' ''text/plain'') empty_world)) = []
   \<and> length (alerts (snd (uploadHandler env_ids_down
        (upload_of plain_chars ''notes.txt'' ''text/plain'') empty_world))) = 1"
proof -
  have pre: "req_file (upload_of plain_chars ''notes.txt'' ''text/plain'')
      = Some (file_of plain_chars ''notes.txt'' ''text/plain'')"
    "f_buffer (file_of plain_chars ''notes.txt'' ''text/plain'') = Some plain_chars"
    "f_size (file_of plain_chars ''notes.txt'' ''text/plain'') \<le> maxSize"
    "level (classifyFileCriticality (arithmetic env_ids_down) plain_chars
        (originalname (file_of plain_chars ''notes.txt'' ''text/plain''))
        (mimetype (file_of plain_chars ''notes.txt'' ''text/plain''))) < 2"
    by (simp_all add: upload_of_def file_of_def plain_chars_length maxSize_def plain_chars_level)
  show ?thesis
    using oracle_failure_forces_rejection[OF pre(1,2) plain_chars_ne pre(3,4) ids_of_envs(3),
        of empty_world]
    by (auto simp: plain_chars_ne plain_chars_level empty_world_def)
qed

text \<open>
  The floor is not what rejects. The same plain characters are stored when the service
  is reachable and answers the score 0.8 with the verdict "normal", and rejected when
  the service cannot be reached, with the same score 0.8 recorded beside the substituted
  verdict "suspicious".
\<close>

theorem oracle_floor_counterexample:
  "outcome_of (fst (uploadHandler env_score_08
       (upload_of plain_chars ''notes.txt'' ''text/plain'') empty_world)) = Some ACCEPT
   \<and> map t_ids_result (transfers (snd (uploadHandler env_score_08
       (upload_of plain_chars ''notes.txt'' ''text/plain'') empty_world)))
       = [\<lparr> anomaly_score = 0.8, verdict = ''normal'', error = None \<rparr>]
   \<and> outcome_of (fst (uploadHandler env_ids_down
       (upload_of plain_chars ''notes.txt'' ''text/plain'') empty_world)) = Some REJECT
   \<and> map (details_ids \<circ> details) (alerts (snd (uploadHandler env_ids_down
       (upload_of plain_chars ''notes.txt'' ''text/plain'') empty_world)))
       = [Some \<lparr> anomaly_score = 0.8, verdict = ''suspicious'',
                 error = Some ''IDS service unavailable'' \<rparr>]
   \<and> map confidence (alerts (snd (uploadHandler env_ids_down
       (upload_of plain_chars ''notes.txt'' ''text/plain'') empty_world))) = [0.8]"
  by (simp add: plain_chars_upload analyse_and_decide_cases ids_analysis_level0
        plain_chars_validation ids_of_envs env_score_08_fields blocks_def store_transfer_def
        reject_after_ids_def empty_world_def Let_def)

subsection \<open>One record per verdict\<close>




subsection \<open>The upload test of the repository\<close>

text \<open>
  C8. The code at the scenario: the 39 bytes of text, with no finding of the corruption
  and structure checks, named valid.txt, with the IDS service reachable and answering
  score 0.1 and "normal". The entropy is below 4.5, the level is 3, the outcome is
  REJECT with one alert and no transfer. The 38 bytes of the upload test of the
  repository are rejected as well.
\<close>

theorem valid_text_upload_rejected:
  "length valid_text = 39
   \<and> cc_issues (detectCorruption env_normal valid_text ''valid.txt'') = []
   \<and> checkFileStructure env_normal valid_text ''valid.txt'' = []
   \<and> callIDS env_normal (fileFeatures (file_of valid_text ''valid.txt'' ''text/plain'')
         (getEntropyFeatures env_normal valid_text)
         (validateFile env_normal valid_text ''valid.txt'' ''text/plain''))
        = Inr \<lparr> anomaly_score = 0.1, verdict = ''normal'', error = None \<rparr>
   \<and> criticalityLevel (validateFile env_normal valid_text ''valid.txt'' ''text/plain'') = Some 3
   \<and> outcome_of (fst (uploadHandler env_normal
        (upload_of valid_text ''valid.txt'' ''text/plain'') empty_world)) = Some REJECT
   \<and> length (alerts (snd (uploadHandler env_normal
        (upload_of valid_text ''valid.txt'' ''text/plain'') empty_world))) = 1
   \<and> transfers (snd (uploadHandler env_normal
        (upload_of valid_text ''valid.txt'' ''text/plain'') empty_world)) = []
   \<and> outcome_of (fst (uploadHandler env_normal
        (upload_of test_text ''valid.txt'' ''text/plain'') empty_world)) = Some REJECT"
proof -
  have ne: "valid_text \<noteq> []" using valid_text_length by auto
  show ?thesis
    by (simp add: valid_text_length valid_text_upload test_text_upload validateFile_fields[OF ne]
          valid_text_level valid_text_corruption valid_text_structure ids_of_envs
          reject_by_level_def Let_def empty_world_def)
qed

section \<open>Properties of the handshake validation\<close>

lemma validate_settles: "settled hid (snd (handshakeValidate p now hid w))"
  by (auto simp: settled_def handshakeValidate_def Let_def split: option.splits outcome.splits)

lemma validate_settled:
  assumes "settled hid w"
  shows "\<not> releases_key (fst (handshakeValidate p now hid w))"
    and "sessions (snd (handshakeValidate p now hid w)) = sessions w"
  using assms
  by (auto simp: settled_def handshakeValidate_def Let_def split: option.splits)

lemma run_settled:
  "settled hid w \<Longrightarrow> filter releases_key (fst (validate_run p hid ts w)) = []"
proof (induction ts arbitrary: w)
  case Nil then show ?case by simp
next
  case (Cons now ts)
  have "settled hid (snd (handshakeValidate p now hid w))" by (rule validate_settles)
  then have "filter releases_key (fst (validate_run p hid ts (snd (handshakeValidate p now hid w)))) = []"
    by (rule Cons.IH)
  then show ?case
    using validate_settled(1)[OF Cons.prems, of p now]
    by (simp split: prod.splits) (metis fst_conv snd_conv)
qed

lemma run_releases_once: "length (filter releases_key (fst (validate_run p hid ts w))) \<le> 1"
proof (cases ts)
  case Nil then show ?thesis by simp
next
  case (Cons now rest)
  have "filter releases_key (fst (validate_run p hid rest (snd (handshakeValidate p now hid w)))) = []"
    using validate_settles by (rule run_settled)
  then show ?thesis
    using Cons by (simp split: prod.splits) (metis fst_conv snd_conv list.size(3) le0)
qed

lemma validate_done:
  assumes "sessions w hid = Some s" "state s = VALIDATED \<or> state s = FAILED"
  shows "fst (handshakeValidate p now hid w) = Inl InvalidSessionState"
    and "sessions (snd (handshakeValidate p now hid w)) = sessions w"
  using assms by (auto simp: handshakeValidate_def)

lemma validate_pending:
  assumes "sessions w hid = Some s" "state s = PENDING" "now < expiresAt s"
  shows "\<exists>s1. sessions (snd (handshakeValidate p now hid w)) hid = Some s1
           \<and> (state s1 = VALIDATED \<or> state s1 = FAILED)
           \<and> (releases_key (fst (handshakeValidate p now hid w)) = (state s1 = VALIDATED))
           \<and> (state s1 = FAILED \<longrightarrow> derivedSessionKey s1 = None)"
  using assms by (auto simp: handshakeValidate_def Let_def split: outcome.splits)

text \<open>
  C9. Validation is accept-once. A validate call on a session that is VALIDATED or FAILED
  fails with InvalidSessionState and leaves the sessions as they are. A validate call on
  a PENDING session before its expiry leaves it VALIDATED or FAILED, releasing the key
  exactly when it is VALIDATED and keeping no key when it is FAILED, and any later
  validate call on it fails with InvalidSessionState without touching the sessions. In
  any run of validate calls on one session at most one call releases a key.
\<close>

theorem validate_is_accept_once:
  assumes "sessions w hid = Some s"
  shows "(state s = VALIDATED \<or> state s = FAILED \<longrightarrow>
            fst (handshakeValidate p now hid w) = Inl InvalidSessionState
            \<and> sessions (snd (handshakeValidate p now hid w)) = sessions w)
     \<and> (state s = PENDING \<and> now < expiresAt s \<longrightarrow>
            (\<exists>s1. sessions (snd (handshakeValidate p now hid w)) hid = Some s1
               \<and> (state s1 = VALIDATED \<or> state s1 = FAILED)
               \<and> (releases_key (fst (handshakeValidate p now hid w)) = (state s1 = VALIDATED))
               \<and> (state s1 = FAILED \<longrightarrow> derivedSessionKey s1 = None))
            \<and> fst (handshakeValidate p later hid (snd (handshakeValidate p now hid w)))
                 = Inl InvalidSessionState
            \<and> sessions (snd (handshakeValidate p later hid (snd (handshakeValidate p now hid w))))
                 = sessions (snd (handshakeValidate p now hid w)))
     \<and> length (filter releases_key (fst (validate_run p hid ts w))) \<le> 1"
proof -
  have second: "fst (handshakeValidate p later hid (snd (handshakeValidate p now hid w)))
                 = Inl InvalidSessionState
            \<and> sessions (snd (handshakeValidate p later hid (snd (handshakeValidate p now hid w))))
                 = sessions (snd (handshakeValidate p now hid w))"
    if pend: "state s = PENDING" "now < expiresAt s"
  proof -
    obtain s1 where s1: "sessions (snd (handshakeValidate p now hid w)) hid = Some s1"
        "state s1 = VALIDATED \<or> state s1 = FAILED"
      using validate_pending[OF assms pend, of p] by blast
    show ?thesis using validate_done[OF s1, of p later] by simp
  qed
  show ?thesis
    using validate_done[OF assms, of p now] validate_pending[OF assms, of now p] second
      run_releases_once[of p hid ts w]
    by blast
qed

text \<open>
A PENDING session validated three times: the first call releases the key.
\<close>

theorem validate_is_accept_once_witness:
  "sessions hs_world0 7 = Some pending_session
   \<and> state pending_session = PENDING \<and> 10 < expiresAt pending_session
   \<and> releases_key (fst (handshakeValidate hs_params0 10 7 hs_world0))
   \<and> fst (handshakeValidate hs_params0 20 7 (snd (handshakeValidate hs_params0 10 7 hs_world0)))
        = Inl InvalidSessionState
   \<and> map releases_key (fst (validate_run hs_params0 7 [10, 20, 30] hs_world0))
        = [True, False, False]"
proof -
  have pre: "sessions hs_world0 7 = Some pending_session"
    "state pending_session = PENDING" "10 < expiresAt pending_session"
    by (simp_all add: hs_world0_def pending_session_def)
  have run: "map releases_key (fst (validate_run hs_params0 7 [10, 20, 30] hs_world0))
        = [True, False, False]"
    by (simp add: handshakeValidate_def hs_world0_def pending_session_def hs_params0_def
          hs_fusion_def Let_def)
  have first: "releases_key (fst (handshakeValidate hs_params0 10 7 hs_world0))"
    by (simp add: handshakeValidate_def hs_world0_def pending_session_def hs_params0_def
          hs_fusion_def Let_def)
  show ?thesis
    using validate_is_accept_once[OF pre(1), of hs_params0 10 20 "[10, 20, 30]"] pre run first
    by simp
qed

end

